theory Spec2Isabelle
  imports Main "HOL-Library.Sublist"
begin

text \<open>
  A model of the parts of the Polymer analyzer that its specification makes claims
  about: the conversion of property names to attribute names and \<^verbatim>\<open>addProperty\<close>
  (polymer-element.ts), the merge of behaviors of the same name (behavior-scanner.ts),
  the scanner of custom-element references (html-element-reference-scanner.ts),
  \<^verbatim>\<open>getDocument\<close> and \<^verbatim>\<open>_parseContents\<close> of the analysis context
  (analysis-context.ts), and the serialization of elements (generate-analysis.ts).
  Functions that mutate an object return the object as they leave it; a function that
  may throw returns the thrown value as a value. The definitions come first, the
  properties after them.
\<close>

section \<open>JavaScript strings\<close>

text \<open>
  A JavaScript string is a sequence of UTF-16 code units. It is modelled as a list of
  characters, a character being a code unit from U+0000 to U+00FF: the ASCII characters
  and the Latin-1 supplement. The patterns of the analysed code (\<^verbatim>\<open>[A-Z]\<close>) know the
  ASCII letters only; the case maps of the runtime, \<^verbatim>\<open>String.prototype.toLowerCase\<close>
  and \<^verbatim>\<open>String.prototype.toUpperCase\<close>, follow the Unicode case mappings, which on
  this range are as below.
\<close>

definition isUpperAZ :: "char \<Rightarrow> bool" where
  "isUpperAZ c \<longleftrightarrow> 65 \<le> (of_char c :: nat) \<and> (of_char c :: nat) \<le> 90"

text \<open>
  The characters with a lower-case form of their own: \<^verbatim>\<open>A\<close> to \<^verbatim>\<open>Z\<close>, and the
  capital letters U+00C0 to U+00DE without the multiplication sign U+00D7. The
  lower-case form is 32 code units further on.
\<close>

definition hasLowerCase :: "char \<Rightarrow> bool" where
  "hasLowerCase c \<longleftrightarrow>
     (65 \<le> (of_char c :: nat) \<and> (of_char c :: nat) \<le> 90) \<or>
     (192 \<le> (of_char c :: nat) \<and> (of_char c :: nat) \<le> 214) \<or>
     (216 \<le> (of_char c :: nat) \<and> (of_char c :: nat) \<le> 222)"

definition charToLowerCase :: "char \<Rightarrow> char" where
  "charToLowerCase c = (if hasLowerCase c then char_of ((of_char c :: nat) + 32) else c)"

definition toLowerCase :: "string \<Rightarrow> string" where
  "toLowerCase s = map charToLowerCase s"

text \<open>
  The characters with an upper-case form of their own: \<^verbatim>\<open>a\<close> to \<^verbatim>\<open>z\<close>, the micro
  sign U+00B5, the sharp s U+00DF, and the small letters U+00E0 to U+00FF without the
  division sign U+00F7.
\<close>

definition hasUpperCase :: "char \<Rightarrow> bool" where
  "hasUpperCase c \<longleftrightarrow>
     (97 \<le> (of_char c :: nat) \<and> (of_char c :: nat) \<le> 122) \<or>
     (of_char c :: nat) = 181 \<or>
     (223 \<le> (of_char c :: nat) \<and> (of_char c :: nat) \<le> 246) \<or>
     (248 \<le> (of_char c :: nat) \<and> (of_char c :: nat) \<le> 255)"

text \<open>
  The upper-case form of three of them is no character of the range: the micro sign
  becomes the Greek capital mu U+039C, the sharp s becomes the two letters \<^verbatim>\<open>SS\<close>, and
  the y with diaeresis U+00FF becomes U+0178. So the upper-cased string is given by its
  code units, and it is compared with the code units of a string.
\<close>

definition codeUnits :: "string \<Rightarrow> nat list" where
  "codeUnits s = map of_char s"

definition charToUpperCase :: "char \<Rightarrow> nat list" where
  "charToUpperCase c =
     (if (of_char c :: nat) = 181 then [924]
      else if (of_char c :: nat) = 223 then [83, 83]
      else if (of_char c :: nat) = 255 then [376]
      else if hasUpperCase c then [(of_char c :: nat) - 32]
      else [of_char c])"

definition toUpperCase :: "string \<Rightarrow> nat list" where
  "toUpperCase s = concat (map charToUpperCase s)"

section \<open>Source ranges, warnings and thrown values\<close>

record Position =
  line :: nat
  column :: nat

record SourceRange =
  range_file :: string
  range_start :: Position
  range_end :: Position

datatype Severity = ERROR | WARNING | INFO

record Warning =
  warning_sourceRange :: SourceRange
  warning_code :: string
  warning_message :: string
  warning_severity :: Severity

text \<open>
  The values the modelled code throws: the runtime's TypeError (a property read on
  \<^verbatim>\<open>undefined\<close> or \<^verbatim>\<open>null\<close>), \<^verbatim>\<open>new Error(message)\<close>,
  \<^verbatim>\<open>new NoKnownParserError(message)\<close>, and a WarningCarryingException with its warning.
\<close>

datatype js_error =
    TypeError
  | Error string
  | NoKnownParserError string
  | WarningCarryingException Warning

text \<open>Abstract syntax nodes are opaque to the code modelled here: a node is its identity.\<close>

type_synonym astNode = nat

datatype Privacy = Public | Protected | Private

section \<open>Polymer properties, attributes and events (polymer-element.ts)\<close>

record ScannedPolymerProperty =
  prop_name :: string
  prop_type :: "string option"
  prop_description :: "string option"
  prop_sourceRange :: "SourceRange option"
  prop_astNode :: astNode
  prop_privacy :: "Privacy option"
  prop_published :: "bool option"
  prop_notify :: "bool option"

record ScannedAttribute =
  attr_name :: string
  attr_sourceRange :: "SourceRange option"
  attr_description :: "string option"
  attr_type :: "string option"
  attr_changeEvent :: "string option"

record ScannedEvent =
  event_name :: string
  event_description :: string
  event_sourceRange :: "SourceRange option"
  event_astNode :: astNode
  event_warnings :: "Warning list"
  event_params :: "string list"

text \<open>
  \<^verbatim>\<open>propertyName.replace(/([A-Z])/g, f)\<close>: the pattern matches exactly one character, so
  the global replacement scans the string once and calls \<open>f\<close> with the match and its
  first group, both the matched letter.
\<close>

fun replace_upper :: "(string \<Rightarrow> string \<Rightarrow> string) \<Rightarrow> string \<Rightarrow> string" where
  "replace_upper f [] = []"
| "replace_upper f (c # cs) =
     (if isUpperAZ c then f [c] [c] @ replace_upper f cs else c # replace_upper f cs)"

text \<open>
  \<^verbatim>\<open>propertyName[0]\<close> is \<^verbatim>\<open>undefined\<close> for the empty string, and calling
  \<^verbatim>\<open>toUpperCase\<close> on it throws a TypeError. Otherwise it is the string of the first
  character, which the guard compares with its upper-cased form. The result \<open>Inr None\<close>
  is \<^verbatim>\<open>null\<close>.
\<close>

definition propertyToAttributeName :: "string \<Rightarrow> js_error + string option" where
  "propertyToAttributeName propertyName =
     (case propertyName of
        [] \<Rightarrow> Inl TypeError
      | c # _ \<Rightarrow>
          if toUpperCase [c] = codeUnits [c] then Inr None
          else Inr (Some (replace_upper (\<lambda>_ c1. ''-'' @ toLowerCase c1) propertyName)))"

text \<open>
  The scanned element, mixin and behavior classes all implement
  \<^verbatim>\<open>ScannedPolymerExtension\<close> and delegate \<^verbatim>\<open>addProperty\<close> to the function below;
  the record is extensible so that one definition serves the three of them.
\<close>

record ScannedBehaviorAssignment =
  assignment_name :: string
  assignment_sourceRange :: "SourceRange option"

record Demo =
  demo_desc :: string
  demo_path :: string

type_synonym Observer = astNode

record ScannedPolymerExtension =
  description :: string
  demos :: "Demo list"
  events :: "ScannedEvent list"
  attributes :: "ScannedAttribute list"
  properties :: "ScannedPolymerProperty list"
  observers :: "Observer list"
  behaviorAssignments :: "ScannedBehaviorAssignment list"

text \<open>
  \<^verbatim>\<open>addProperty\<close> mutates its target and returns nothing, or throws. The model
  returns the target as the call leaves it, with \<open>None\<close> for a normal return and
  \<open>Some e\<close> when \<open>e\<close> was thrown: the push onto \<^verbatim>\<open>target.properties\<close> comes
  before the conversion of the name and is not undone when the conversion throws.
  The JavaScript truth tests are written out: an absent or \<^verbatim>\<open>'public'\<close> privacy
  passes, a \<^verbatim>\<open>null\<close> or empty attribute name does not, and \<^verbatim>\<open>published\<close> and
  \<^verbatim>\<open>notify\<close> count only when they are \<^verbatim>\<open>true\<close>.
\<close>

definition addProperty ::
  "'a ScannedPolymerExtension_scheme \<Rightarrow> ScannedPolymerProperty \<Rightarrow>
     'a ScannedPolymerExtension_scheme \<times> js_error option" where
  "addProperty target prop =
     (let target1 = target\<lparr>properties := properties target @ [prop]\<rparr> in
      case propertyToAttributeName (prop_name prop) of
        Inl e \<Rightarrow> (target1, Some e)
      | Inr attributeName \<Rightarrow>
          (case attributeName of
             None \<Rightarrow> (target1, None)
           | Some a \<Rightarrow>
               if (prop_privacy prop \<noteq> None \<and> prop_privacy prop \<noteq> Some Public) \<or> a = [] \<or>
                  prop_published prop \<noteq> Some True
               then (target1, None)
               else
                 let target2 = target1\<lparr>attributes := attributes target1 @
                       [\<lparr>attr_name = a,
                         attr_sourceRange = prop_sourceRange prop,
                         attr_description = prop_description prop,
                         attr_type = prop_type prop,
                         attr_changeEvent =
                           (if prop_notify prop = Some True then Some (a @ ''-changed'') else None)\<rparr>]\<rparr>
                 in if prop_notify prop = Some True
                    then (target2\<lparr>events := events target2 @
                            [\<lparr>event_name = a @ ''-changed'',
                              event_description =
                                ''Fired when the `'' @ prop_name prop @ ''` property changes.'',
                              event_sourceRange = prop_sourceRange prop,
                              event_astNode = prop_astNode prop,
                              event_warnings = [],
                              event_params = []\<rparr>]\<rparr>, None)
                    else (target2, None)))"

section \<open>The behavior scanner (behavior-scanner.ts)\<close>

subsection \<open>Plain objects used as tables\<close>

text \<open>
  \<^verbatim>\<open>dedupe\<close> collects its elements in a plain object, \<^verbatim>\<open>const bucket = {}\<close>. Such an
  object is modelled by its own properties in the order of their creation. The test
  \<^verbatim>\<open>key in bucket\<close> also finds the properties that every plain object inherits from
  \<^verbatim>\<open>Object.prototype\<close>; their names are listed here.
\<close>

type_synonym 'a js_object = "(string \<times> 'a) list"

definition objectPrototypeKeys :: "string list" where
  "objectPrototypeKeys =
     [''constructor'', ''__defineGetter__'', ''__defineSetter__'', ''hasOwnProperty'',
      ''__lookupGetter__'', ''__lookupSetter__'', ''isPrototypeOf'', ''propertyIsEnumerable'',
      ''toString'', ''valueOf'', ''__proto__'', ''toLocaleString'']"

definition hasProperty :: "'a js_object \<Rightarrow> string \<Rightarrow> bool" where
  "hasProperty obj key \<longleftrightarrow> key \<in> set (map fst obj) \<or> key \<in> set objectPrototypeKeys"

text \<open>
  \<^verbatim>\<open>obj[key] = value\<close> for a key that is an own property or no property at all: the
  own property keeps its place, a new one is created last. (The assignment is only
  reached for keys that are no property of the object.)
\<close>

fun setProperty :: "'a js_object \<Rightarrow> string \<Rightarrow> 'a \<Rightarrow> 'a js_object" where
  "setProperty [] key v = [(key, v)]"
| "setProperty ((k, w) # obj) key v =
     (if k = key then (k, v) # obj else (k, w) # setProperty obj key v)"

text \<open>
  \<^verbatim>\<open>Object.keys\<close> lists the own properties whose names are array indices (canonical
  decimal numerals below \<open>2\<^sup>3\<^sup>2 - 1\<close>) first, in ascending numeric order, and then the
  others in the order of their creation.
\<close>

definition isDigit :: "char \<Rightarrow> bool" where
  "isDigit c \<longleftrightarrow> 48 \<le> (of_char c :: nat) \<and> (of_char c :: nat) \<le> 57"

definition decimalValue :: "string \<Rightarrow> int" where
  "decimalValue k = foldl (\<lambda>n c. 10 * n + ((of_char c :: int) - 48)) 0 k"

definition isArrayIndex :: "string \<Rightarrow> bool" where
  "isArrayIndex k \<longleftrightarrow>
     k \<noteq> [] \<and> list_all isDigit k \<and> (k = ''0'' \<or> take 1 k \<noteq> ''0'') \<and>
     decimalValue k < 4294967295"

definition objectKeys :: "'a js_object \<Rightarrow> string list" where
  "objectKeys obj =
     sort_key decimalValue (filter isArrayIndex (map fst obj)) @
     filter (\<lambda>k. \<not> isArrayIndex k) (map fst obj)"

definition dedupe :: "'a list \<Rightarrow> ('a \<Rightarrow> string) \<Rightarrow> 'a list" where
  "dedupe array keyFunc =
     (let bucket =
            foldl (\<lambda>bucket el.
                     let key = keyFunc el
                     in if hasProperty bucket key then bucket else setProperty bucket key el)
                  [] array
      in List.map_filter (map_of bucket) (objectKeys bucket))"

subsection \<open>Merging behaviors of the same name\<close>

text \<open>
  \<^verbatim>\<open>s.indexOf(search)\<close>: the index of the first occurrence of \<open>search\<close> in \<open>s\<close>, or
  \<open>-1\<close> when there is none.
\<close>

fun indexOf :: "string \<Rightarrow> string \<Rightarrow> int" where
  "indexOf [] search = (if search = [] then 0 else - 1)"
| "indexOf (c # s) search =
     (if prefix search (c # s) then 0
      else let i = indexOf s search in if i = - 1 then - 1 else i + 1)"

text \<open>
  A scanned behavior is a scanned Polymer element with the class name that
  \<^verbatim>\<open>_initBehavior\<close> has given it before it calls \<^verbatim>\<open>mergeBehavior\<close> (it throws when it
  finds none, so the name is a string there).
\<close>

record ScannedBehavior = ScannedPolymerExtension +
  className :: string

definition isBehaviorImpl :: "ScannedBehavior \<Rightarrow> ScannedBehaviorAssignment \<Rightarrow> bool" where
  "isBehaviorImpl newBehavior b \<longleftrightarrow> indexOf (assignment_name b) (className newBehavior) = - 1"

text \<open>
  The loop \<^verbatim>\<open>for (const property of newBehavior.properties) behavior.addProperty(property)\<close>:
  an exception of \<^verbatim>\<open>addProperty\<close> ends it and leaves the target as it is then.
\<close>

fun addProperties ::
  "'a ScannedPolymerExtension_scheme \<Rightarrow> ScannedPolymerProperty list \<Rightarrow>
     'a ScannedPolymerExtension_scheme \<times> js_error option" where
  "addProperties target [] = (target, None)"
| "addProperties target (property # rest) =
     (case addProperty target property of
        (target1, Some e) \<Rightarrow> (target1, Some e)
      | (target1, None) \<Rightarrow> addProperties target1 rest)"

text \<open>The body of the loop of \<^verbatim>\<open>mergeBehavior\<close> for the behavior of the same name.\<close>

definition mergeInto :: "ScannedBehavior \<Rightarrow> ScannedBehavior \<Rightarrow> ScannedBehavior \<times> js_error option" where
  "mergeInto behavior newBehavior =
     (let b1 = (if description newBehavior \<noteq> [] then
                  (if description behavior \<noteq> [] then
                     (if length (description newBehavior) > length (description behavior)
                      then behavior\<lparr>description := description newBehavior\<rparr>
                      else behavior)
                   else behavior\<lparr>description := description newBehavior\<rparr>)
                else behavior);
          b2 = b1\<lparr>demos := demos b1 @ demos newBehavior\<rparr>;
          b3 = b2\<lparr>events := events b2 @ events newBehavior\<rparr>;
          b4 = b3\<lparr>events := dedupe (events b3) event_name\<rparr>
      in case addProperties b4 (properties newBehavior) of
           (b5, Some e) \<Rightarrow> (b5, Some e)
         | (b5, None) \<Rightarrow>
             (let b6 = b5\<lparr>observers := observers b5 @ observers newBehavior\<rparr>;
                  b7 = b6\<lparr>behaviorAssignments :=
                          filter (isBehaviorImpl newBehavior)
                            (behaviorAssignments b6 @ behaviorAssignments newBehavior)\<rparr>
              in (b7, None)))"

text \<open>
  \<^verbatim>\<open>this.behaviors\<close> is a set of objects, iterated in the order of insertion: a list.
  \<^verbatim>\<open>mergeBehavior\<close> changes the first behavior of the same name in place and returns it,
  or returns the new behavior when there is none; the model returns the behaviors as
  the call leaves them and the returned behavior, or the exception.
\<close>

fun mergeBehavior ::
  "ScannedBehavior list \<Rightarrow> ScannedBehavior \<Rightarrow> ScannedBehavior list \<times> (js_error + ScannedBehavior)" where
  "mergeBehavior [] newBehavior = ([], Inr newBehavior)"
| "mergeBehavior (behavior # rest) newBehavior =
     (if className newBehavior \<noteq> className behavior then
        (case mergeBehavior rest newBehavior of (rest1, r) \<Rightarrow> (behavior # rest1, r))
      else
        (case mergeInto behavior newBehavior of
           (b, Some e) \<Rightarrow> (b # rest, Inl e)
         | (b, None) \<Rightarrow> (b # rest, Inr b)))"

text \<open>
  What the merge is meant to do with the events, in the words of the claim: keep, for
  each event name, the first element that has it. A name is ordinary when it is neither
  the name of an inherited property of a plain object nor an array index.
\<close>

fun keepFirstByKey :: "('a \<Rightarrow> string) \<Rightarrow> string set \<Rightarrow> 'a list \<Rightarrow> 'a list" where
  "keepFirstByKey keyFunc seen [] = []"
| "keepFirstByKey keyFunc seen (x # xs) =
     (if keyFunc x \<in> seen then keepFirstByKey keyFunc seen xs
      else x # keepFirstByKey keyFunc (insert (keyFunc x) seen) xs)"

definition ordinaryKey :: "string \<Rightarrow> bool" where
  "ordinaryKey k \<longleftrightarrow> k \<notin> set objectPrototypeKeys \<and> \<not> isArrayIndex k"

section \<open>The element reference scanner (html-element-reference-scanner.ts)\<close>

text \<open>
  The regular expressions of the scanner, with the constructs it uses: \<^verbatim>\<open>.\<close> (any
  character but a line terminator), a literal character, sequence, and \<^verbatim>\<open>+\<close>.
\<close>

datatype regex = Dot | Chr char | Seq regex regex | Plus regex

definition isLineTerminator :: "char \<Rightarrow> bool" where
  "isLineTerminator c \<longleftrightarrow> c = CHR 0x0A \<or> c = CHR 0x0D"

text \<open>
  \<open>ends r s\<close> lists the rests of \<open>s\<close> that remain after each way \<open>r\<close> can match at the
  start of \<open>s\<close>. For \<^verbatim>\<open>r+\<close> the matcher of \<open>r\<close> is iterated; every round of the
  patterns here consumes a character, so \<open>length s + 1\<close> rounds cover all matches.
\<close>

fun iterate :: "nat \<Rightarrow> (string \<Rightarrow> string list) \<Rightarrow> string \<Rightarrow> string list" where
  "iterate 0 m s = []"
| "iterate (Suc n) m s = m s @ concat (map (iterate n m) (m s))"

fun ends :: "regex \<Rightarrow> string \<Rightarrow> string list" where
  "ends Dot s = (case s of [] \<Rightarrow> [] | c # t \<Rightarrow> if isLineTerminator c then [] else [t])"
| "ends (Chr a) s = (case s of [] \<Rightarrow> [] | c # t \<Rightarrow> if c = a then [t] else [])"
| "ends (Seq r1 r2) s = concat (map (ends r2) (ends r1 s))"
| "ends (Plus r) s = iterate (Suc (length s)) (ends r) s"

text \<open>\<^verbatim>\<open>regex.test(s)\<close> without anchors: the pattern matches somewhere in \<open>s\<close>.\<close>

definition regex_test :: "regex \<Rightarrow> string \<Rightarrow> bool" where
  "regex_test r s = list_ex (\<lambda>t. ends r t \<noteq> []) (suffixes s)"

text \<open>The pattern \<^verbatim>\<open>/(.+-)+.+/\<close> and its group \<^verbatim>\<open>(.+-)\<close>.\<close>

definition hyphenGroup :: regex where
  "hyphenGroup = Seq (Plus Dot) (Chr (CHR ''-''))"

definition customElementRegex :: regex where
  "customElementRegex = Seq (Plus hyphenGroup) (Plus Dot)"


text \<open>
  The nodes of parse5, with the fields the scanner reads: text and comment nodes have no
  tag name, and \<^verbatim>\<open>content\<close> is the document fragment of a template.
\<close>

record ASTAttr =
  ast_attr_name :: string
  ast_attr_value :: string

datatype ASTNode =
  ASTNode (nodeName: string) (tagName: "string option") (attrs: "ASTAttr list option")
    (childNodes: "ASTNode list") (content: "ASTNode option")

text \<open>
  The source-range lookups of the parsed document, whose class is not part of the
  analysed sources, are parameters; each may return \<^verbatim>\<open>undefined\<close>.
\<close>

record ParsedHtmlDocument =
  sourceRangeForNode :: "ASTNode \<Rightarrow> SourceRange option"
  sourceRangeForAttribute :: "ASTNode \<Rightarrow> string \<Rightarrow> SourceRange option"
  sourceRangeForAttributeName :: "ASTNode \<Rightarrow> string \<Rightarrow> SourceRange option"
  sourceRangeForAttributeValue :: "ASTNode \<Rightarrow> string \<Rightarrow> SourceRange option"

record ScannedElementReferenceAttribute =
  era_name :: string
  era_value :: string
  era_sourceRange :: "SourceRange option"
  era_nameSourceRange :: "SourceRange option"
  era_valueSourceRange :: "SourceRange option"

record ScannedElementReference =
  ser_tagName :: string
  ser_sourceRange :: "SourceRange option"
  ser_astNode :: ASTNode
  ser_attributes :: "ScannedElementReferenceAttribute list"

text \<open>
  \<^verbatim>\<open>dom5.predicates.hasMatchingTagName(regex)\<close>, of the dom5 library: false for a node
  without a tag name, else the test of the pattern on the lower-cased tag name.
\<close>

definition hasMatchingTagName :: "regex \<Rightarrow> ASTNode \<Rightarrow> bool" where
  "hasMatchingTagName r node =
     (case tagName node of
        None \<Rightarrow> False
      | Some t \<Rightarrow> if t = [] then False else regex_test r (toLowerCase t))"

definition isCustomElement :: "ASTNode \<Rightarrow> bool" where
  "isCustomElement = hasMatchingTagName customElementRegex"

text \<open>
  The method \<^verbatim>\<open>matches\<close> of the two scanner classes: \<^verbatim>\<open>!!node\<close> in
  HtmlElementReferenceScanner, overridden in HtmlCustomElementReferenceScanner.
\<close>

definition matchesAnyElement :: "ASTNode \<Rightarrow> bool" where
  "matchesAnyElement node = True"

definition matchesCustomElement :: "ASTNode \<Rightarrow> bool" where
  "matchesCustomElement node \<longleftrightarrow> isCustomElement node \<and> nodeName node \<noteq> ''dom-module''"

text \<open>The loop over \<^verbatim>\<open>node.attrs\<close> that fills the attributes of a new reference.\<close>

definition referenceAttributes ::
  "ParsedHtmlDocument \<Rightarrow> ASTNode \<Rightarrow> ScannedElementReferenceAttribute list" where
  "referenceAttributes document node =
     (case attrs node of
        None \<Rightarrow> []
      | Some as \<Rightarrow>
          map (\<lambda>attr.
                 \<lparr>era_name = ast_attr_name attr,
                  era_value = ast_attr_value attr,
                  era_sourceRange = sourceRangeForAttribute document node (ast_attr_name attr),
                  era_nameSourceRange = sourceRangeForAttributeName document node (ast_attr_name attr),
                  era_valueSourceRange = sourceRangeForAttributeValue document node (ast_attr_name attr)\<rparr>)
              as)"

text \<open>The first half of the visitor: the reference it pushes for a node, if any.\<close>

definition visitNode ::
  "(ASTNode \<Rightarrow> bool) \<Rightarrow> ParsedHtmlDocument \<Rightarrow> ASTNode \<Rightarrow> ScannedElementReference list" where
  "visitNode matches document node =
     (case tagName node of
        None \<Rightarrow> []
      | Some tag \<Rightarrow>
          if tag \<noteq> [] \<and> matches node then
            [\<lparr>ser_tagName = tag,
              ser_sourceRange = sourceRangeForNode document node,
              ser_astNode = node,
              ser_attributes = referenceAttributes document node\<rparr>]
          else [])"

text \<open>
  The second half descends into templates: \<^verbatim>\<open>dom5.nodeWalk(content, n => { visitor(n);
  return false; })\<close> applies the visitor to the content and to every descendant of
  it, in document order. \<open>nodeWalk\<close> is that walk with the visitor as its callback.
\<close>

fun nodeWalk ::
  "(ASTNode \<Rightarrow> bool) \<Rightarrow> ParsedHtmlDocument \<Rightarrow> ASTNode \<Rightarrow> ScannedElementReference list" where
  "nodeWalk matches document (ASTNode nn tn as cs ct) =
     visitNode matches document (ASTNode nn tn as cs ct) @
     (if tn = Some ''template'' then
        (case ct of None \<Rightarrow> [] | Some c \<Rightarrow> nodeWalk matches document c)
      else []) @
     concat (map (nodeWalk matches document) cs)"

definition visitor ::
  "(ASTNode \<Rightarrow> bool) \<Rightarrow> ParsedHtmlDocument \<Rightarrow> ASTNode \<Rightarrow> ScannedElementReference list" where
  "visitor matches document node =
     visitNode matches document node @
     (if tagName node = Some ''template'' then
        (case content node of None \<Rightarrow> [] | Some c \<Rightarrow> nodeWalk matches document c)
      else [])"

text \<open>
  \<^verbatim>\<open>scan\<close> hands the visitor to the \<^verbatim>\<open>visit\<close> function of its caller and returns
  what the visitor has collected; \<open>visited\<close> lists the nodes to which \<^verbatim>\<open>visit\<close>
  applies the visitor, in order.
\<close>

definition scan ::
  "(ASTNode \<Rightarrow> bool) \<Rightarrow> ParsedHtmlDocument \<Rightarrow> ASTNode list \<Rightarrow> ScannedElementReference list" where
  "scan matches document visited = concat (map (visitor matches document) visited)"

text \<open>
  The nodes to which the visitor is applied in the course of a scan: those of
  \<^verbatim>\<open>visit\<close> and those reached through the contents of templates.
\<close>

fun walkedNodes :: "ASTNode \<Rightarrow> ASTNode list" where
  "walkedNodes (ASTNode nn tn as cs ct) =
     ASTNode nn tn as cs ct #
     (if tn = Some ''template'' then (case ct of None \<Rightarrow> [] | Some c \<Rightarrow> walkedNodes c) else []) @
     concat (map walkedNodes cs)"

definition visitedNodes :: "ASTNode list \<Rightarrow> ASTNode list" where
  "visitedNodes visited =
     concat (map (\<lambda>node. node #
       (if tagName node = Some ''template'' then
          (case content node of None \<Rightarrow> [] | Some c \<Rightarrow> walkedNodes c)
        else [])) visited)"

text \<open>
  A tag name with a hyphen that has a character before it and one after it, neither of
  them a line terminator.
\<close>

fun hyphenInside :: "string \<Rightarrow> bool" where
  "hyphenInside (c # d # e # s) =
     ((\<not> isLineTerminator c \<and> d = CHR ''-'' \<and> \<not> isLineTerminator e) \<or> hyphenInside (d # e # s))"
| "hyphenInside s = False"

section \<open>The analysis context (analysis-context.ts)\<close>

record LocationOffset =
  offset_line :: nat
  offset_col :: nat
  offset_filename :: string

record InlineDocInfo =
  inline_astNode :: "astNode option"
  inline_locationOffset :: "LocationOffset option"

record ParsedDocument =
  parsed_type :: string
  parsed_url :: string
  parsed_contents :: string
  parsed_inlineInfo :: "InlineDocInfo option"

text \<open>
  A parser returns a parsed document or throws, and JavaScript lets it throw any value.
  Of a thrown value the context asks whether it is an instance of
  WarningCarryingException and, if it is not, reads its \<^verbatim>\<open>stack\<close> property into the
  message of a new error. So a thrown value is one of: a WarningCarryingException with
  its warning; another value of which properties can be read, given by the text that
  \<^verbatim>\<open>${error.stack}\<close> renders (the stack of an Error object, \<^verbatim>\<open>undefined\<close> for a
  value without one); or \<^verbatim>\<open>null\<close> or \<^verbatim>\<open>undefined\<close>, of which reading a property
  throws a TypeError.
\<close>

datatype thrown_value =
    ThrownWarningCarryingException Warning
  | ThrownValue string
  | ThrownNullish

type_synonym Parser = "string \<Rightarrow> string \<Rightarrow> InlineDocInfo option \<Rightarrow> thrown_value + ParsedDocument"

record ScannedDocument =
  scanned_url :: string
  scanned_document :: ParsedDocument
  scanned_warnings :: "Warning list"

text \<open>
  Modelled from the spec: the Document class is missing from the sources. Of the
  resolved document of the spec's data model, which is produced from exactly one scanned
  document, the model keeps that scanned document and whether \<^verbatim>\<open>resolve()\<close> has run.
\<close>

record Document =
  doc_scannedDocument :: ScannedDocument
  doc_resolved :: bool

record AnalysisCache =
  failedDocuments :: "string \<rightharpoonup> Warning"
  analyzedDocuments :: "string \<rightharpoonup> Document"
  analyzedDocumentPromises :: "string \<rightharpoonup> Document"
  scannedDocuments :: "string \<rightharpoonup> ScannedDocument"

record UrlResolver =
  canResolve :: "string \<Rightarrow> bool"
  resolve :: "string \<Rightarrow> string"

record AnalysisContext =
  parsers :: "string \<rightharpoonup> Parser"
  resolver :: UrlResolver
  cache :: AnalysisCache

text \<open>The private method \<^verbatim>\<open>_parseContents\<close>, of the context.\<close>

definition parseContents ::
  "AnalysisContext \<Rightarrow> string \<Rightarrow> string \<Rightarrow> string \<Rightarrow> InlineDocInfo option \<Rightarrow>
     js_error + ParsedDocument" where
  "parseContents ctx type contents url inlineInfo =
     (case parsers ctx type of
        None \<Rightarrow> Inl (NoKnownParserError (''No parser for for file type '' @ type))
      | Some parser \<Rightarrow>
          (case parser contents url inlineInfo of
             Inr parsed \<Rightarrow> Inr parsed
           | Inl error \<Rightarrow>
               (case error of
                  ThrownWarningCarryingException w \<Rightarrow> Inl (WarningCarryingException w)
                | ThrownValue stack \<Rightarrow>
                    Inl (Error (''Error parsing '' @ url @ '':'' @ [CHR 0x0A] @ '' '' @ stack))
                | ThrownNullish \<Rightarrow> Inl TypeError)))"

definition resolveUrl :: "AnalysisContext \<Rightarrow> string \<Rightarrow> string" where
  "resolveUrl ctx url =
     (if canResolve (resolver ctx) url then resolve (resolver ctx) url else url)"

text \<open>
  \<^verbatim>\<open>getDocument\<close> returns a warning or a document and may write to the cache, so the
  model returns the context as the call leaves it. The table of language analyzers is
  empty in this version of the code (its only entry is commented out), so the
  \<^verbatim>\<open>analysisResult\<close> handed to the new document is always \<^verbatim>\<open>undefined\<close> and is left
  out. The new document is stored in the cache before it is resolved, and
  \<^verbatim>\<open>resolve()\<close> changes that same object: the model stores the resolved document.
\<close>

definition getDocument :: "AnalysisContext \<Rightarrow> string \<Rightarrow> (Warning + Document) \<times> AnalysisContext" where
  "getDocument ctx url =
     (let resolvedUrl = resolveUrl ctx url in
      case failedDocuments (cache ctx) resolvedUrl of
        Some cachedWarning \<Rightarrow> (Inl cachedWarning, ctx)
      | None \<Rightarrow>
          (case analyzedDocuments (cache ctx) resolvedUrl of
             Some cachedResult \<Rightarrow> (Inr cachedResult, ctx)
           | None \<Rightarrow>
               (case scannedDocuments (cache ctx) resolvedUrl of
                  None \<Rightarrow>
                    (Inl \<lparr>warning_sourceRange =
                            \<lparr>range_file = resolveUrl ctx url,
                             range_start = \<lparr>line = 0, column = 0\<rparr>,
                             range_end = \<lparr>line = 0, column = 0\<rparr>\<rparr>,
                          warning_code = ''unable-to-analyze'',
                          warning_message = ''Document not found: '' @ url,
                          warning_severity = ERROR\<rparr>, ctx)
                | Some scannedDocument \<Rightarrow>
                    (let document = \<lparr>doc_scannedDocument = scannedDocument, doc_resolved = True\<rparr>;
                         c = cache ctx;
                         c1 = c\<lparr>analyzedDocuments := (analyzedDocuments c)(resolvedUrl \<mapsto> document)\<rparr>;
                         c2 = (case analyzedDocumentPromises c1 resolvedUrl of
                                 Some _ \<Rightarrow> c1
                               | None \<Rightarrow> c1\<lparr>analyzedDocumentPromises :=
                                           (analyzedDocumentPromises c1)(resolvedUrl \<mapsto> document)\<rparr>)
                     in (Inr document, ctx\<lparr>cache := c2\<rparr>)))))"

section \<open>The summary emitter (generate-analysis.ts)\<close>

text \<open>
  The resolved features as the emitter reads them. An optional field is an
  \<open>option\<close>; the metadata the features emit through their \<^verbatim>\<open>emit...Metadata\<close>
  methods, which are not part of the analysed sources, are fields of the element. The
  functions \<^verbatim>\<open>relative\<close> and \<^verbatim>\<open>dirname\<close> of Node's path library are parameters.
\<close>

type_synonym json = string

record PathLib =
  path_relative :: "string \<Rightarrow> string \<Rightarrow> string"
  path_dirname :: "string \<Rightarrow> string"

record Parameter =
  param_name :: string
  param_description :: "string option"
  param_type :: "string option"

record ReturnValue =
  return_type :: "string option"
  return_desc :: "string option"

record ResolvedProperty =
  rp_name :: string
  rp_type :: "string option"
  rp_description :: "string option"
  rp_privacy :: Privacy
  rp_sourceRange :: "SourceRange option"
  rp_default :: "string option"
  rp_inheritedFrom :: "string option"

record ResolvedMethod =
  rm_name :: string
  rm_description :: "string option"
  rm_privacy :: Privacy
  rm_sourceRange :: "SourceRange option"
  rm_params :: "Parameter list option"
  rm_return :: "ReturnValue option"
  rm_inheritedFrom :: "string option"

record ResolvedAttribute =
  ra_name :: string
  ra_description :: "string option"
  ra_sourceRange :: "SourceRange option"
  ra_type :: "string option"
  ra_inheritedFrom :: "string option"

record ResolvedEvent =
  re_name :: string
  re_description :: "string option"
  re_inheritedFrom :: "string option"

record Slot =
  slot_name :: string
  slot_range :: SourceRange

record Reference =
  ref_identifier :: string

record ResolvedElement =
  element_tagName :: "string option"
  element_className :: "string option"
  element_superClass :: "Reference option"
  element_mixins :: "Reference list"
  element_description :: "string option"
  element_summary :: "string option"
  element_sourceRange :: "SourceRange option"
  element_privacy :: Privacy
  element_properties :: "ResolvedProperty list"
  element_methods :: "ResolvedMethod list"
  element_attributes :: "ResolvedAttribute list"
  element_events :: "ResolvedEvent list"
  element_slots :: "Slot list"
  element_demos :: "Demo list option"
  emitMetadata :: json
  emitPropertyMetadata :: "ResolvedProperty \<Rightarrow> json"
  emitMethodMetadata :: "ResolvedMethod \<Rightarrow> json"
  emitAttributeMetadata :: "ResolvedAttribute \<Rightarrow> json"
  emitEventMetadata :: "ResolvedEvent \<Rightarrow> json"

text \<open>The entries of the summary, field by field as the object literals build them.\<close>

record SummarySourceRange =
  out_file :: "string option"
  out_start :: Position
  out_end :: Position

record SummaryProperty =
  sp_name :: string
  sp_type :: string
  sp_description :: string
  sp_privacy :: Privacy
  sp_sourceRange :: "SummarySourceRange option"
  sp_metadata :: json
  sp_defaultValue :: "string option"
  sp_inheritedFrom :: "string option"

record SummaryMethod =
  sm_name :: string
  sm_description :: string
  sm_privacy :: Privacy
  sm_sourceRange :: "SummarySourceRange option"
  sm_metadata :: json
  sm_params :: "Parameter list option"
  sm_return :: "ReturnValue option"
  sm_inheritedFrom :: "string option"

record SummaryAttribute =
  sa_name :: string
  sa_description :: string
  sa_sourceRange :: "SummarySourceRange option"
  sa_metadata :: json
  sa_type :: "string option"
  sa_inheritedFrom :: "string option"

record SummaryEvent =
  se_type :: string
  se_name :: string
  se_description :: string
  se_metadata :: json
  se_inheritedFrom :: "string option"

record SummarySlot =
  ss_description :: string
  ss_name :: string
  ss_range :: SourceRange

record SummaryClass =
  summary_description :: string
  summary_summary :: string
  summary_path :: string
  summary_properties :: "SummaryProperty list"
  summary_methods :: "SummaryMethod list"
  summary_demos :: "string list"
  summary_metadata :: json
  summary_sourceRange :: "SummarySourceRange option"
  summary_privacy :: Privacy

record SummaryElementLike = SummaryClass +
  summary_attributes :: "SummaryAttribute list"
  summary_events :: "SummaryEvent list"
  summary_cssVariables :: "string list"
  summary_selectors :: "string list"
  summary_slots :: "SummarySlot list"

record SummaryElement = SummaryElementLike +
  summary_tagname :: "string option"
  summary_classname :: "string option"
  summary_mixins :: "string list option"
  summary_superclass :: "string option"

text \<open>
  The truth tests of JavaScript on optional strings: \<^verbatim>\<open>x || d\<close> is \<open>d\<close> when \<open>x\<close> is
  absent or empty, and \<^verbatim>\<open>if (x)\<close> keeps \<open>x\<close> only when it is present and not empty.
\<close>

definition orElse :: "string option \<Rightarrow> string \<Rightarrow> string" where
  "orElse x d = (case x of None \<Rightarrow> d | Some v \<Rightarrow> if v = [] then d else v)"

definition ifTruthy :: "string option \<Rightarrow> string option" where
  "ifTruthy x = (case x of None \<Rightarrow> None | Some v \<Rightarrow> if v = [] then None else Some v)"

definition resolveSourceRangePath ::
  "PathLib \<Rightarrow> string \<Rightarrow> SourceRange option \<Rightarrow> SummarySourceRange option" where
  "resolveSourceRangePath pathLib elementPath sourceRange =
     (case sourceRange of
        None \<Rightarrow> None
      | Some r \<Rightarrow>
          if range_file r = [] then
            Some \<lparr>out_file = Some (range_file r), out_start = range_start r,
                  out_end = range_end r\<rparr>
          else if elementPath = range_file r then
            Some \<lparr>out_file = None, out_start = range_start r, out_end = range_end r\<rparr>
          else
            Some \<lparr>out_file =
                    Some (path_relative pathLib (path_dirname pathLib elementPath) (range_file r)),
                  out_start = range_start r, out_end = range_end r\<rparr>)"

definition serializeProperty ::
  "PathLib \<Rightarrow> ResolvedElement \<Rightarrow> string \<Rightarrow> ResolvedProperty \<Rightarrow> SummaryProperty" where
  "serializeProperty pathLib elementOrMixin elementPath resolvedProperty =
     \<lparr>sp_name = rp_name resolvedProperty,
      sp_type = orElse (rp_type resolvedProperty) ''?'',
      sp_description = orElse (rp_description resolvedProperty) [],
      sp_privacy = rp_privacy resolvedProperty,
      sp_sourceRange = resolveSourceRangePath pathLib elementPath (rp_sourceRange resolvedProperty),
      sp_metadata = emitPropertyMetadata elementOrMixin resolvedProperty,
      sp_defaultValue = ifTruthy (rp_default resolvedProperty),
      sp_inheritedFrom = ifTruthy (rp_inheritedFrom resolvedProperty)\<rparr>"

definition serializeAttribute ::
  "PathLib \<Rightarrow> ResolvedElement \<Rightarrow> string \<Rightarrow> ResolvedAttribute \<Rightarrow> SummaryAttribute" where
  "serializeAttribute pathLib resolvedElement elementPath resolvedAttribute =
     \<lparr>sa_name = ra_name resolvedAttribute,
      sa_description = orElse (ra_description resolvedAttribute) [],
      sa_sourceRange = resolveSourceRangePath pathLib elementPath (ra_sourceRange resolvedAttribute),
      sa_metadata = emitAttributeMetadata resolvedElement resolvedAttribute,
      sa_type = ifTruthy (ra_type resolvedAttribute),
      sa_inheritedFrom = ra_inheritedFrom resolvedAttribute\<rparr>"

definition serializeParameter :: "Parameter \<Rightarrow> Parameter" where
  "serializeParameter p =
     \<lparr>param_name = param_name p,
      param_description = ifTruthy (param_description p),
      param_type = ifTruthy (param_type p)\<rparr>"

definition serializeMethod ::
  "PathLib \<Rightarrow> ResolvedElement \<Rightarrow> string \<Rightarrow> ResolvedMethod \<Rightarrow> SummaryMethod" where
  "serializeMethod pathLib resolvedElement elementPath resolvedMethod =
     \<lparr>sm_name = rm_name resolvedMethod,
      sm_description = orElse (rm_description resolvedMethod) [],
      sm_privacy = rm_privacy resolvedMethod,
      sm_sourceRange = resolveSourceRangePath pathLib elementPath (rm_sourceRange resolvedMethod),
      sm_metadata = emitMethodMetadata resolvedElement resolvedMethod,
      sm_params = map_option (map serializeParameter) (rm_params resolvedMethod),
      sm_return = rm_return resolvedMethod,
      sm_inheritedFrom = rm_inheritedFrom resolvedMethod\<rparr>"

definition serializeEvent ::
  "ResolvedElement \<Rightarrow> string \<Rightarrow> ResolvedEvent \<Rightarrow> SummaryEvent" where
  "serializeEvent resolvedElement elementPath resolvedEvent =
     \<lparr>se_type = ''CustomEvent'',
      se_name = re_name resolvedEvent,
      se_description = orElse (re_description resolvedEvent) [],
      se_metadata = emitEventMetadata resolvedElement resolvedEvent,
      se_inheritedFrom = re_inheritedFrom resolvedEvent\<rparr>"

text \<open>
  \<^verbatim>\<open>clazz.sourceRange!.file\<close> reads a property of \<^verbatim>\<open>undefined\<close> when the feature has
  no source range: a TypeError.
\<close>

definition serializeClass :: "PathLib \<Rightarrow> ResolvedElement \<Rightarrow> string \<Rightarrow> js_error + SummaryClass" where
  "serializeClass pathLib clazz packagePath =
     (case element_sourceRange clazz of
        None \<Rightarrow> Inl TypeError
      | Some r \<Rightarrow>
          Inr \<lparr>summary_description = orElse (element_description clazz) [],
               summary_summary = orElse (element_summary clazz) [],
               summary_path = path_relative pathLib packagePath (range_file r),
               summary_properties = map (serializeProperty pathLib clazz (range_file r)) (element_properties clazz),
               summary_methods = map (serializeMethod pathLib clazz (range_file r)) (element_methods clazz),
               summary_demos = map demo_path (case element_demos clazz of None \<Rightarrow> [] | Some ds \<Rightarrow> ds),
               summary_metadata = emitMetadata clazz,
               summary_sourceRange = resolveSourceRangePath pathLib (range_file r) (element_sourceRange clazz),
               summary_privacy = element_privacy clazz\<rparr>)"

definition serializeElementLike ::
  "PathLib \<Rightarrow> ResolvedElement \<Rightarrow> string \<Rightarrow> js_error + SummaryElementLike" where
  "serializeElementLike pathLib elementOrMixin packagePath =
     (case serializeClass pathLib elementOrMixin packagePath of
        Inl e \<Rightarrow> Inl e
      | Inr clazz \<Rightarrow>
          (case element_sourceRange elementOrMixin of
             None \<Rightarrow> Inl TypeError
           | Some r \<Rightarrow>
               Inr (SummaryClass.extend clazz
                 (SummaryElementLike.fields
                    (map (serializeAttribute pathLib elementOrMixin (range_file r))
                         (element_attributes elementOrMixin))
                    (map (serializeEvent elementOrMixin (range_file r))
                         (element_events elementOrMixin))
                    [] []
                    (map (\<lambda>s. \<lparr>ss_description = [], ss_name = slot_name s, ss_range = slot_range s\<rparr>)
                         (element_slots elementOrMixin))))))"

definition serializeElement ::
  "PathLib \<Rightarrow> ResolvedElement \<Rightarrow> string \<Rightarrow> js_error + SummaryElement" where
  "serializeElement pathLib element packagePath =
     (case serializeElementLike pathLib element packagePath of
        Inl e \<Rightarrow> Inl e
      | Inr metadata \<Rightarrow>
          Inr (SummaryElementLike.extend metadata
            (SummaryElement.fields
               (element_tagName element)
               (ifTruthy (element_className element))
               (if length (element_mixins element) > 0
                then Some (map ref_identifier (element_mixins element)) else None)
               (Some ''HTMLElement''))))"

text \<open>
  The inverse transformation of the round-trip property, written from the words of the
  property (the code has no such function): for each \<^verbatim>\<open>-\<close> followed by a letter, delete
  the \<^verbatim>\<open>-\<close> and capitalize the letter. The letters are the characters of the Unicode
  categories of letters: the ASCII letters, the ordinal indicators U+00AA and U+00BA, the
  micro sign, and U+00C0 to U+00FF without the multiplication and the division sign. To
  capitalize is to take the upper-case form, so the result is given by its code units.
\<close>

definition isLetter :: "char \<Rightarrow> bool" where
  "isLetter c \<longleftrightarrow>
     (65 \<le> (of_char c :: nat) \<and> (of_char c :: nat) \<le> 90) \<or>
     (97 \<le> (of_char c :: nat) \<and> (of_char c :: nat) \<le> 122) \<or>
     (of_char c :: nat) = 170 \<or> (of_char c :: nat) = 181 \<or> (of_char c :: nat) = 186 \<or>
     (192 \<le> (of_char c :: nat) \<and> (of_char c :: nat) \<le> 214) \<or>
     (216 \<le> (of_char c :: nat) \<and> (of_char c :: nat) \<le> 246) \<or>
     (248 \<le> (of_char c :: nat) \<and> (of_char c :: nat) \<le> 255)"

fun attributeToPropertyName_spec :: "string \<Rightarrow> nat list" where
  "attributeToPropertyName_spec (d # c # cs) =
     (if d = CHR ''-'' \<and> isLetter c
      then charToUpperCase c @ attributeToPropertyName_spec cs
      else of_char d # attributeToPropertyName_spec (c # cs))"
| "attributeToPropertyName_spec cs = codeUnits cs"

text \<open>
  Whether a string has a \<^verbatim>\<open>-\<close> immediately followed by a letter that is not one of
  \<^verbatim>\<open>A\<close> to \<^verbatim>\<open>Z\<close>.
\<close>

fun dashBeforeLetter :: "string \<Rightarrow> bool" where
  "dashBeforeLetter (d # c # cs) =
     ((d = CHR ''-'' \<and> isLetter c \<and> \<not> isUpperAZ c) \<or> dashBeforeLetter (c # cs))"
| "dashBeforeLetter cs = False"

text \<open>Concrete inputs used in the evaluations below.\<close>

definition emptyTarget :: ScannedPolymerExtension where
  "emptyTarget = \<lparr>description = [], demos = [], events = [], attributes = [],
     properties = [], observers = [], behaviorAssignments = []\<rparr>"

definition mkProperty :: "string \<Rightarrow> Privacy option \<Rightarrow> ScannedPolymerProperty" where
  "mkProperty n p = \<lparr>prop_name = n, prop_type = Some ''String'', prop_description = None,
     prop_sourceRange = None, prop_astNode = 0, prop_privacy = p,
     prop_published = Some True, prop_notify = Some True\<rparr>"

definition throwingParser :: "thrown_value \<Rightarrow> Parser" where
  "throwingParser v = (\<lambda>contents url inlineInfo. Inl v)"

definition exampleDocument :: Document where
  "exampleDocument =
     \<lparr>doc_scannedDocument =
        \<lparr>scanned_url = ''/root/a.html'',
         scanned_document = \<lparr>parsed_type = ''html'', parsed_url = ''/root/a.html'',
                               parsed_contents = [], parsed_inlineInfo = None\<rparr>,
         scanned_warnings = []\<rparr>,
      doc_resolved = True\<rparr>"

text \<open>
  A context whose resolver maps the relative URL \<^verbatim>\<open>a.html\<close> to \<^verbatim>\<open>/root/a.html\<close> and
  resolves nothing else, and whose cache holds the analyzed document of that file.
\<close>

definition exampleContext :: AnalysisContext where
  "exampleContext =
     \<lparr>parsers = Map.empty,
      resolver = \<lparr>canResolve = (\<lambda>url. url = ''a.html''), resolve = (\<lambda>url. ''/root/'' @ url)\<rparr>,
      cache = \<lparr>failedDocuments = Map.empty,
                analyzedDocuments = [''/root/a.html'' \<mapsto> exampleDocument],
                analyzedDocumentPromises = [''/root/a.html'' \<mapsto> exampleDocument],
                scannedDocuments = Map.empty\<rparr>\<rparr>"

text \<open>A context with the same resolver and nothing in its cache.\<close>

definition freshContext :: AnalysisContext where
  "freshContext =
     \<lparr>parsers = Map.empty,
      resolver = \<lparr>canResolve = (\<lambda>url. url = ''a.html''), resolve = (\<lambda>url. ''/root/'' @ url)\<rparr>,
      cache = \<lparr>failedDocuments = Map.empty,
                analyzedDocuments = Map.empty,
                analyzedDocumentPromises = Map.empty,
                scannedDocuments = Map.empty\<rparr>\<rparr>"

definition examplePathLib :: PathLib where
  "examplePathLib = \<lparr>path_relative = (\<lambda>from to. to), path_dirname = (\<lambda>p. p)\<rparr>"

text \<open>An element whose resolved superclass is \<^verbatim>\<open>Polymer.Element\<close>.\<close>

definition exampleElement :: ResolvedElement where
  "exampleElement =
     \<lparr>element_tagName = Some ''my-element'',
      element_className = Some ''MyElement'',
      element_superClass = Some \<lparr>ref_identifier = ''Polymer.Element''\<rparr>,
      element_mixins = [],
      element_description = None,
      element_summary = None,
      element_sourceRange =
        Some \<lparr>range_file = ''my-element.html'',
              range_start = \<lparr>line = 1, column = 0\<rparr>,
              range_end = \<lparr>line = 9, column = 1\<rparr>\<rparr>,
      element_privacy = Public,
      element_properties = [],
      element_methods = [],
      element_attributes = [],
      element_events = [],
      element_slots = [],
      element_demos = None,
      emitMetadata = ''{}'',
      emitPropertyMetadata = (\<lambda>p. ''{}''),
      emitMethodMetadata = (\<lambda>m. ''{}''),
      emitAttributeMetadata = (\<lambda>a. ''{}''),
      emitEventMetadata = (\<lambda>e. ''{}'')\<rparr>"

definition mkEvent :: "string \<Rightarrow> astNode \<Rightarrow> ScannedEvent" where
  "mkEvent n a = \<lparr>event_name = n, event_description = [], event_sourceRange = None,
     event_astNode = a, event_warnings = [], event_params = []\<rparr>"

definition mkBehavior :: "string \<Rightarrow> string \<Rightarrow> ScannedEvent list \<Rightarrow> ScannedBehavior" where
  "mkBehavior n d es = \<lparr>description = d, demos = [], events = es, attributes = [],
     properties = [], observers = [], behaviorAssignments = [], className = n\<rparr>"

definition exampleRange :: "nat \<Rightarrow> SourceRange" where
  "exampleRange n = \<lparr>range_file = ''index.html'', range_start = \<lparr>line = n, column = 0\<rparr>,
     range_end = \<lparr>line = n, column = 9\<rparr>\<rparr>"

definition exampleHtmlDocument :: ParsedHtmlDocument where
  "exampleHtmlDocument =
     \<lparr>sourceRangeForNode = (\<lambda>node. Some (exampleRange 1)),
      sourceRangeForAttribute = (\<lambda>node name. Some (exampleRange 2)),
      sourceRangeForAttributeName = (\<lambda>node name. Some (exampleRange 3)),
      sourceRangeForAttributeValue = (\<lambda>node name. None)\<rparr>"

definition elementNode :: "string \<Rightarrow> ASTAttr list \<Rightarrow> ASTNode" where
  "elementNode tag as = ASTNode tag (Some tag) (Some as) [] None"

text \<open>
  The nodes of a small document: a custom element with an attribute, a plain element,
  the element-module wrapper, and a template whose content holds a custom element.
\<close>

definition exampleNodes :: "ASTNode list" where
  "exampleNodes =
     [elementNode ''my-element'' [\<lparr>ast_attr_name = ''foo'', ast_attr_value = ''bar''\<rparr>],
      elementNode ''div'' [],
      elementNode ''dom-module'' [],
      ASTNode ''template'' (Some ''template'') (Some []) []
        (Some (ASTNode ''#document-fragment'' None None [elementNode ''x-a'' []] None))]"

section \<open>Properties of the name conversion\<close>

lemma charToUpperCase_fixed_iff: "charToUpperCase c = [of_char c] \<longleftrightarrow> \<not> hasUpperCase c"
  by (auto simp: charToUpperCase_def hasUpperCase_def)

lemma toUpperCase_fixed_iff: "toUpperCase [c] = codeUnits [c] \<longleftrightarrow> \<not> hasUpperCase c"
  by (simp add: toUpperCase_def codeUnits_def charToUpperCase_fixed_iff)

text \<open>
  What the conversion computes on a non-empty name: the guard lets through exactly the
  names whose first character has an upper-case form of its own, and those get a
  \<^verbatim>\<open>-\<close> and the lower-cased letter in place of each of the letters \<^verbatim>\<open>A\<close> to
  \<^verbatim>\<open>Z\<close>.
\<close>

lemma propertyToAttributeName_Cons:
  "propertyToAttributeName (c # cs) =
     (if hasUpperCase c
      then Inr (Some (concat (map (\<lambda>x. if isUpperAZ x then [CHR ''-'', charToLowerCase x] else [x])
                                  (c # cs))))
      else Inr None)"
proof -
  have "replace_upper (\<lambda>_ c1. ''-'' @ toLowerCase c1) xs =
        concat (map (\<lambda>x. if isUpperAZ x then [CHR ''-'', charToLowerCase x] else [x]) xs)"
    for xs
    by (induction xs) (simp_all add: toLowerCase_def)
  then show ?thesis
    by (simp add: propertyToAttributeName_def toUpperCase_fixed_iff)
qed

lemma propertyToAttributeName_upper_first:
  "isUpperAZ c \<Longrightarrow> propertyToAttributeName (c # cs) = Inr None"
  by (simp add: propertyToAttributeName_Cons isUpperAZ_def hasUpperCase_def)

lemma propertyToAttributeName_nonempty:
  "propertyToAttributeName p = Inr (Some a) \<Longrightarrow> a \<noteq> []"
  by (cases p)
     (auto simp: propertyToAttributeName_def propertyToAttributeName_Cons hasUpperCase_def
                 isUpperAZ_def split: if_splits)

text \<open>
  The names that start with a letter of the Latin-1 supplement are converted like the
  others: the guard lets the small letters through and stops the capital ones.
\<close>

lemma propertyToAttributeName_latin1:
  "propertyToAttributeName (CHR 0xE9 # ''fooBar'') = Inr (Some (CHR 0xE9 # ''foo-bar'')) \<and>
   propertyToAttributeName (CHR 0xB5 # ''Foo'') = Inr (Some (CHR 0xB5 # ''-foo'')) \<and>
   propertyToAttributeName (CHR 0xDF # ''a'') = Inr (Some (CHR 0xDF # ''a'')) \<and>
   propertyToAttributeName (CHR 0xFF # ''a'') = Inr (Some (CHR 0xFF # ''a'')) \<and>
   propertyToAttributeName (CHR 0xC9 # ''foo'') = Inr None \<and>
   propertyToAttributeName (CHR 0xF7 # ''foo'') = Inr None"
  by code_simp

text \<open>An upper-case ASCII letter is the upper-case form of its lower-case form.\<close>

lemma charToLowerCase_upperAZ:
  assumes "isUpperAZ c"
  shows "isLetter (charToLowerCase c)" and "charToUpperCase (charToLowerCase c) = [of_char c]"
  using assms
  by (auto simp: charToLowerCase_def charToUpperCase_def hasLowerCase_def hasUpperCase_def
                 isLetter_def isUpperAZ_def)

text \<open>The inverse undoes the replacement, one character after the other.\<close>

lemma spec_keep:
  "d \<noteq> CHR ''-'' \<Longrightarrow>
     attributeToPropertyName_spec (d # xs) = of_char d # attributeToPropertyName_spec xs"
  by (cases xs) (simp_all add: codeUnits_def)

lemma spec_single: "attributeToPropertyName_spec [d] = [of_char d]"
  by (simp add: codeUnits_def)

lemma replace_upper_Cons:
  "replace_upper (\<lambda>_ c1. ''-'' @ toLowerCase c1) (c # cs) =
     (if isUpperAZ c
      then CHR ''-'' # charToLowerCase c # replace_upper (\<lambda>_ c1. ''-'' @ toLowerCase c1) cs
      else c # replace_upper (\<lambda>_ c1. ''-'' @ toLowerCase c1) cs)"
  by (simp add: toLowerCase_def)

lemma not_isLetter_hyphen: "\<not> isLetter (CHR ''-'')"
  by (simp add: isLetter_def)

lemma not_isUpperAZ_hyphen: "\<not> isUpperAZ (CHR ''-'')"
  by (simp add: isUpperAZ_def)

lemma dash_roundtrip:
  "\<not> dashBeforeLetter s \<Longrightarrow>
     attributeToPropertyName_spec (replace_upper (\<lambda>_ c1. ''-'' @ toLowerCase c1) s) = codeUnits s"
proof (induction s rule: dashBeforeLetter.induct)
  case (1 d c cs)
  let ?R = "replace_upper (\<lambda>_ c1. ''-'' @ toLowerCase c1)"
  from "1.prems" have ok: "\<not> (d = CHR ''-'' \<and> isLetter c \<and> \<not> isUpperAZ c)"
    and rest: "\<not> dashBeforeLetter (c # cs)"
    by simp_all
  have ih: "attributeToPropertyName_spec (?R (c # cs)) = codeUnits (c # cs)"
    using "1.IH" rest by simp
  show ?case
  proof (cases "isUpperAZ d")
    case True
    then have "attributeToPropertyName_spec (?R (d # c # cs)) =
                 [of_char d] @ attributeToPropertyName_spec (?R (c # cs))"
      by (simp only: replace_upper_Cons [of d] if_True attributeToPropertyName_spec.simps
                     charToLowerCase_upperAZ simp_thms)
    then show ?thesis
      by (simp only: ih) (simp add: codeUnits_def)
  next
    case notUpper: False
    show ?thesis
    proof (cases "d = CHR ''-''")
      case False
      with notUpper have "attributeToPropertyName_spec (?R (d # c # cs)) =
                of_char d # attributeToPropertyName_spec (?R (c # cs))"
        by (simp only: replace_upper_Cons [of d] if_False spec_keep simp_thms)
      then show ?thesis
        by (simp only: ih) (simp add: codeUnits_def)
    next
      case True
      show ?thesis
      proof (cases "isUpperAZ c")
        case True
        have "attributeToPropertyName_spec (?R (d # c # cs)) =
                of_char d # attributeToPropertyName_spec (?R (c # cs))"
          using notUpper True
          by (simp only: replace_upper_Cons [of d] replace_upper_Cons [of c] if_False if_True
                         attributeToPropertyName_spec.simps not_isLetter_hyphen simp_thms)
        then show ?thesis
          by (simp only: ih) (simp add: codeUnits_def)
      next
        case False
        with ok \<open>d = CHR ''-''\<close> have "\<not> isLetter c"
          by simp
        then have "attributeToPropertyName_spec (?R (d # c # cs)) =
                of_char d # attributeToPropertyName_spec (?R (c # cs))"
          using notUpper False
          by (simp only: replace_upper_Cons [of d] replace_upper_Cons [of c] if_False
                         attributeToPropertyName_spec.simps simp_thms)
        then show ?thesis
          by (simp only: ih) (simp add: codeUnits_def)
      qed
    qed
  qed
qed (simp_all add: toLowerCase_def charToLowerCase_upperAZ codeUnits_def)

text \<open>
  A \<^verbatim>\<open>-\<close> before a letter of the Latin-1 supplement, small or capital, is lost like
  one before a small ASCII letter: the conversion leaves both characters as they are,
  and the inverse deletes the \<^verbatim>\<open>-\<close>.
\<close>

lemma dash_before_latin1_letter:
  "propertyToAttributeName (''a-'' @ [CHR 0xC9]) = Inr (Some (''a-'' @ [CHR 0xC9])) \<and>
   attributeToPropertyName_spec (''a-'' @ [CHR 0xC9]) = [97, 201] \<and>
   propertyToAttributeName (''a-'' @ [CHR 0xE9]) = Inr (Some (''a-'' @ [CHR 0xE9])) \<and>
   attributeToPropertyName_spec (''a-'' @ [CHR 0xE9]) = [97, 201]"
  by code_simp

text \<open>
  C3. The conversion is meant to reject the names that start with an upper-case letter
  and no others. The guard compares the first character with its upper-cased form, which
  also holds of every character that is not a letter: the name \<^verbatim>\<open>_foo\<close> does not
  start with an upper-case letter and is rejected all the same.
\<close>

theorem propertyToAttributeName_rejects_underscore:
  "\<not> isUpperAZ (CHR ''_'') \<and> propertyToAttributeName ''_foo'' = Inr None"
  by (simp add: propertyToAttributeName_Cons isUpperAZ_def hasUpperCase_def)

text \<open>
  C4, as stated: every accepted property name is recovered from its attribute name by
  deleting each \<^verbatim>\<open>-\<close> that precedes a letter and capitalizing that letter. The name
  \<^verbatim>\<open>a-b\<close> is accepted and converted to itself, and the inverse makes \<^verbatim>\<open>aB\<close> of it.
\<close>

theorem property_attribute_roundtrip_counterexample:
  "propertyToAttributeName ''a-b'' = Inr (Some ''a-b'') \<and>
   attributeToPropertyName_spec ''a-b'' = codeUnits ''aB'' \<and>
   attributeToPropertyName_spec ''a-b'' \<noteq> codeUnits ''a-b''"
  by code_simp

text \<open>
  C4, amended: every accepted property name in which no \<^verbatim>\<open>-\<close> is immediately
  followed by a letter other than \<^verbatim>\<open>A\<close> to \<^verbatim>\<open>Z\<close> is recovered from its attribute
  name by the inverse. (A \<^verbatim>\<open>-\<close> before one of \<^verbatim>\<open>A\<close> to \<^verbatim>\<open>Z\<close> does no harm: the
  conversion puts a second \<^verbatim>\<open>-\<close> between the two, and the inverse leaves the first
  alone.)
\<close>

theorem property_attribute_roundtrip:
  assumes "propertyToAttributeName p = Inr (Some a)" and "\<not> dashBeforeLetter p"
  shows "attributeToPropertyName_spec a = codeUnits p"
  using assms dash_roundtrip [of p]
  by (auto simp: propertyToAttributeName_def split: list.splits if_splits)

theorem property_attribute_roundtrip_witness:
  "propertyToAttributeName ''fooBar'' = Inr (Some ''foo-bar'') \<and>
   \<not> dashBeforeLetter ''fooBar'' \<and>
   attributeToPropertyName_spec ''foo-bar'' = codeUnits ''fooBar'' \<and>
   propertyToAttributeName (CHR 0xE9 # ''t-AB'') = Inr (Some (CHR 0xE9 # ''t--a-b'')) \<and>
   \<not> dashBeforeLetter (CHR 0xE9 # ''t-AB'') \<and>
   attributeToPropertyName_spec (CHR 0xE9 # ''t--a-b'') = codeUnits (CHR 0xE9 # ''t-AB'')"
proof -
  have a: "propertyToAttributeName ''fooBar'' = Inr (Some ''foo-bar'')"
    by code_simp
  have b: "\<not> dashBeforeLetter ''fooBar''"
    by code_simp
  have c: "propertyToAttributeName (CHR 0xE9 # ''t-AB'') = Inr (Some (CHR 0xE9 # ''t--a-b''))"
    by code_simp
  have d: "\<not> dashBeforeLetter (CHR 0xE9 # ''t-AB'')"
    by code_simp
  show ?thesis
    using a b c d property_attribute_roundtrip [OF a b] property_attribute_roundtrip [OF c d]
    by simp
qed

section \<open>Properties of addProperty\<close>

text \<open>
  C5, as stated: every published property with \<^verbatim>\<open>notify\<close> set gets a change event
  and an attribute carrying it. A private property named \<^verbatim>\<open>foo\<close>, published and
  notifying, gets neither: the guard on privacy returns first.
\<close>

theorem addProperty_notify_counterexample:
  "prop_published (mkProperty ''foo'' (Some Private)) = Some True \<and>
   prop_notify (mkProperty ''foo'' (Some Private)) = Some True \<and>
   propertyToAttributeName ''foo'' = Inr (Some ''foo'') \<and>
   events (fst (addProperty emptyTarget (mkProperty ''foo'' (Some Private)))) = [] \<and>
   attributes (fst (addProperty emptyTarget (mkProperty ''foo'' (Some Private)))) = []"
  by code_simp

text \<open>
  C5, amended: for every published property with \<^verbatim>\<open>notify\<close> set whose privacy is
  absent or public and whose name converts to an attribute name, \<^verbatim>\<open>addProperty\<close>
  returns normally, appends the event named after the attribute with \<^verbatim>\<open>-changed\<close>
  to the target's events, and appends an attribute whose change event is that name.
\<close>

theorem addProperty_notify:
  assumes "prop_published prop = Some True" and "prop_notify prop = Some True"
    and "prop_privacy prop = None \<or> prop_privacy prop = Some Public"
    and "propertyToAttributeName (prop_name prop) = Inr (Some a)"
  shows "snd (addProperty target prop) = None \<and>
         events (fst (addProperty target prop)) = events target @
           [\<lparr>event_name = a @ ''-changed'',
             event_description = ''Fired when the `'' @ prop_name prop @ ''` property changes.'',
             event_sourceRange = prop_sourceRange prop, event_astNode = prop_astNode prop,
             event_warnings = [], event_params = []\<rparr>] \<and>
         attributes (fst (addProperty target prop)) = attributes target @
           [\<lparr>attr_name = a, attr_sourceRange = prop_sourceRange prop,
             attr_description = prop_description prop, attr_type = prop_type prop,
             attr_changeEvent = Some (a @ ''-changed'')\<rparr>]"
  using assms propertyToAttributeName_nonempty [of "prop_name prop" a]
  by (auto simp: addProperty_def Let_def)

theorem addProperty_notify_witness:
  "map event_name (events (fst (addProperty emptyTarget (mkProperty ''fooBar'' None)))) =
     [''foo-bar-changed''] \<and>
   map attr_changeEvent (attributes (fst (addProperty emptyTarget (mkProperty ''fooBar'' None)))) =
     [Some ''foo-bar-changed''] \<and>
   map event_name
     (events (fst (addProperty emptyTarget (mkProperty (CHR 0xB5 # ''Foo'') (Some Public))))) =
     [CHR 0xB5 # ''-foo-changed''] \<and>
   map attr_changeEvent
     (attributes (fst (addProperty emptyTarget (mkProperty (CHR 0xB5 # ''Foo'') (Some Public))))) =
     [Some (CHR 0xB5 # ''-foo-changed'')]"
proof -
  have a: "propertyToAttributeName (prop_name (mkProperty ''fooBar'' None)) = Inr (Some ''foo-bar'')"
    by code_simp
  have p: "prop_published (mkProperty ''fooBar'' None) = Some True"
    and n: "prop_notify (mkProperty ''fooBar'' None) = Some True"
    and v: "prop_privacy (mkProperty ''fooBar'' None) = None \<or>
            prop_privacy (mkProperty ''fooBar'' None) = Some Public"
    by (simp_all add: mkProperty_def)
  have a': "propertyToAttributeName (prop_name (mkProperty (CHR 0xB5 # ''Foo'') (Some Public))) =
              Inr (Some (CHR 0xB5 # ''-foo''))"
    by code_simp
  have p': "prop_published (mkProperty (CHR 0xB5 # ''Foo'') (Some Public)) = Some True"
    and n': "prop_notify (mkProperty (CHR 0xB5 # ''Foo'') (Some Public)) = Some True"
    and v': "prop_privacy (mkProperty (CHR 0xB5 # ''Foo'') (Some Public)) = None \<or>
             prop_privacy (mkProperty (CHR 0xB5 # ''Foo'') (Some Public)) = Some Public"
    by (simp_all add: mkProperty_def)
  show ?thesis
    using addProperty_notify [OF p n v a, of emptyTarget]
      addProperty_notify [OF p' n' v' a', of emptyTarget]
    by (simp add: emptyTarget_def)
qed

text \<open>
  C10, as stated: on a property with the empty name \<^verbatim>\<open>addProperty\<close> throws instead
  of recording the property. It throws, but only after the push onto the target's
  properties: the property is in the list when the exception leaves the function.
\<close>

theorem addProperty_empty_name_counterexample:
  "snd (addProperty emptyTarget (mkProperty [] None)) = Some TypeError \<and>
   properties emptyTarget = [] \<and>
   properties (fst (addProperty emptyTarget (mkProperty [] None))) = [mkProperty [] None]"
  by (simp add: addProperty_def propertyToAttributeName_def emptyTarget_def mkProperty_def)

text \<open>
  C10, amended: the conversion throws a TypeError on the empty name, and
  \<^verbatim>\<open>addProperty\<close> on a property with the empty name throws that error after it has
  appended the property to the target's properties; nothing else of the target
  changes, so no attribute and no event is recorded.
\<close>

theorem addProperty_empty_name:
  assumes "prop_name prop = []"
  shows "propertyToAttributeName (prop_name prop) = Inl TypeError \<and>
         addProperty target prop =
           (target\<lparr>properties := properties target @ [prop]\<rparr>, Some TypeError)"
  using assms by (simp add: addProperty_def propertyToAttributeName_def)

theorem addProperty_empty_name_witness:
  "prop_name (mkProperty [] None) = [] \<and>
   propertyToAttributeName [] = Inl TypeError \<and>
   addProperty emptyTarget (mkProperty [] None) =
     (emptyTarget\<lparr>properties := [mkProperty [] None]\<rparr>, Some TypeError)"
proof -
  have e: "prop_name (mkProperty [] None) = []"
    by (simp add: mkProperty_def)
  show ?thesis
    using e addProperty_empty_name [OF e, of emptyTarget]
    by (simp add: emptyTarget_def)
qed

section \<open>Properties of the behavior scanner\<close>

text \<open>
  On ordinary names \<^verbatim>\<open>dedupe\<close> keeps the first element of each name, in the order of
  the array.
\<close>

lemma setProperty_new: "key \<notin> fst ` set obj \<Longrightarrow> setProperty obj key v = obj @ [(key, v)]"
  by (induction obj) auto

lemma bucket_fold:
  assumes "list_all (\<lambda>x. ordinaryKey (keyFunc x)) xs"
  shows "foldl (\<lambda>bucket el. let key = keyFunc el
                  in if hasProperty bucket key then bucket else setProperty bucket key el) b xs =
         b @ map (\<lambda>x. (keyFunc x, x)) (keepFirstByKey keyFunc (fst ` set b) xs)"
  using assms
proof (induction xs arbitrary: b)
  case Nil
  show ?case by simp
next
  case (Cons x xs)
  then have ord: "keyFunc x \<notin> set objectPrototypeKeys" and rest: "list_all (\<lambda>x. ordinaryKey (keyFunc x)) xs"
    by (simp_all add: ordinaryKey_def)
  show ?case
  proof (cases "keyFunc x \<in> fst ` set b")
    case True
    then show ?thesis using Cons.IH [OF rest, of b] by (simp add: hasProperty_def)
  next
    case False
    then show ?thesis
      using Cons.IH [OF rest, of "b @ [(keyFunc x, x)]"] ord
      by (simp add: hasProperty_def setProperty_new)
  qed
qed

lemma keepFirstByKey_keys:
  "set (map keyFunc (keepFirstByKey keyFunc seen xs)) \<subseteq> keyFunc ` set xs - seen"
  by (induction xs arbitrary: seen) auto

lemma keepFirstByKey_distinct: "distinct (map keyFunc (keepFirstByKey keyFunc seen xs))"
proof (induction xs arbitrary: seen)
  case Nil show ?case by simp
next
  case (Cons x xs)
  show ?case using Cons.IH keepFirstByKey_keys [of keyFunc "insert (keyFunc x) seen" xs]
    by auto
qed

lemma map_filter_map_of_distinct:
  "distinct (map fst b) \<Longrightarrow> List.map_filter (map_of b) (map fst b) = map snd b"
proof (induction b)
  case Nil
  show ?case by (simp add: List.map_filter_simps)
next
  case (Cons p b)
  obtain k v where p: "p = (k, v)" by (cases p)
  have k: "k \<notin> fst ` set b" and d: "distinct (map fst b)"
    using Cons.prems by (simp_all add: p)
  have eq: "map_of (p # b) x = map_of b x" if "x \<in> set (map fst b)" for x
    using that k by (auto simp: p)
  have f: "filter (\<lambda>x. map_of (p # b) x \<noteq> None) (map fst b) =
           filter (\<lambda>x. map_of b x \<noteq> None) (map fst b)"
    using eq by (intro filter_cong) auto
  have m: "map (the \<circ> map_of (p # b)) (filter (\<lambda>x. map_of b x \<noteq> None) (map fst b)) =
           map (the \<circ> map_of b) (filter (\<lambda>x. map_of b x \<noteq> None) (map fst b))"
    using eq by (intro map_cong) auto
  have "List.map_filter (map_of (p # b)) (map fst b) = List.map_filter (map_of b) (map fst b)"
    unfolding List.map_filter_def f m ..
  then have rest: "List.map_filter (map_of (p # b)) (map fst b) = map snd b"
    using Cons.IH [OF d] by (simp only:)
  have first: "List.map_filter (map_of (p # b)) (map fst (p # b)) =
        v # List.map_filter (map_of (p # b)) (map fst b)"
    by (simp add: p List.map_filter_simps)
  show ?case
    unfolding first rest by (simp add: p)
qed

lemma objectKeys_ordinary:
  "list_all ordinaryKey (map fst b) \<Longrightarrow> objectKeys b = map fst b"
proof -
  assume a: "list_all ordinaryKey (map fst b)"
  then have "filter isArrayIndex (map fst b) = []" "filter (\<lambda>k. \<not> isArrayIndex k) (map fst b) = map fst b"
    by (auto simp: list_all_iff ordinaryKey_def filter_empty_conv)
  then show ?thesis by (simp add: objectKeys_def)
qed

lemma keepFirstByKey_subset: "set (keepFirstByKey keyFunc seen xs) \<subseteq> set xs"
  by (induction xs arbitrary: seen) auto

lemma dedupe_ordinary:
  assumes "list_all (\<lambda>x. ordinaryKey (keyFunc x)) xs"
  shows "dedupe xs keyFunc = keepFirstByKey keyFunc {} xs"
proof -
  let ?kept = "keepFirstByKey keyFunc {} xs"
  let ?b = "map (\<lambda>x. (keyFunc x, x)) ?kept"
  have fst_b: "map fst ?b = map keyFunc ?kept" and snd_b: "map snd ?b = ?kept"
    by (simp_all add: comp_def)
  have "list_all ordinaryKey (map fst ?b)"
    using assms keepFirstByKey_subset [of keyFunc "{}" xs]
    unfolding fst_b by (auto simp: list_all_iff)
  then have keys: "objectKeys ?b = map fst ?b"
    by (rule objectKeys_ordinary)
  have "distinct (map fst ?b)"
    unfolding fst_b by (rule keepFirstByKey_distinct)
  then have "List.map_filter (map_of ?b) (map fst ?b) = ?kept"
    using map_filter_map_of_distinct [of ?b] snd_b by simp
  then show ?thesis
    using bucket_fold [OF assms, of "[]"] keys by (simp add: dedupe_def)
qed


text \<open>
  What \<^verbatim>\<open>addProperty\<close> and the loop over it leave unchanged, and what they append.
\<close>

lemma addProperty_frame:
  assumes "addProperty t p = (t1, r)"
  shows "description t1 = description t \<and> demos t1 = demos t \<and> observers t1 = observers t \<and>
         behaviorAssignments t1 = behaviorAssignments t \<and>
         ScannedPolymerExtension.more t1 = ScannedPolymerExtension.more t \<and>
         properties t1 = properties t @ [p] \<and>
         (\<exists>extra. events t1 = events t @ extra)"
  using assms
  by (auto simp: addProperty_def Let_def split: sum.splits option.splits if_splits)

lemma addProperties_frame:
  assumes "addProperties t ps = (t1, r)"
  shows "description t1 = description t \<and> demos t1 = demos t \<and> observers t1 = observers t \<and>
         behaviorAssignments t1 = behaviorAssignments t \<and>
         ScannedPolymerExtension.more t1 = ScannedPolymerExtension.more t \<and>
         (r = None \<longrightarrow> properties t1 = properties t @ ps) \<and>
         (\<exists>extra. events t1 = events t @ extra)"
  using assms
proof (induction ps arbitrary: t)
  case Nil
  then show ?case by simp
next
  case (Cons p ps)
  obtain t2 r2 where a: "addProperty t p = (t2, r2)"
    by (cases "addProperty t p")
  note f = addProperty_frame [OF a]
  show ?case
  proof (cases r2)
    case None
    then have "addProperties t2 ps = (t1, r)"
      using Cons.prems a by simp
    from Cons.IH [OF this] f show ?thesis
      by auto
  next
    case (Some e)
    then have "t1 = t2" "r = Some e"
      using Cons.prems a by simp_all
    with f show ?thesis
      by auto
  qed
qed

lemma addProperty_className:
  "className (fst (addProperty t p)) = className t"
  by (auto simp: addProperty_def Let_def split: sum.splits option.splits)

lemma addProperties_className:
  "className (fst (addProperties t ps)) = className t"
proof (induction ps arbitrary: t)
  case Nil
  show ?case by simp
next
  case (Cons p ps)
  show ?case
    using Cons.IH [of "fst (addProperty t p)"] addProperty_className [of t p]
    by (cases "addProperty t p") (auto split: option.splits)
qed

text \<open>\<^verbatim>\<open>indexOf\<close> is \<open>-1\<close> exactly when the string does not contain the other.\<close>

lemma indexOf_ge: "- 1 \<le> indexOf s search"
  by (induction s) (auto simp: Let_def)

lemma indexOf_minus_one_iff: "indexOf s search = - 1 \<longleftrightarrow> \<not> sublist search s"
proof (induction s)
  case Nil
  show ?case by simp
next
  case (Cons c s)
  have "indexOf s search + 1 \<noteq> - 1" using indexOf_ge [of s search] by linarith
  then show ?case using Cons by (auto simp: Let_def sublist_Cons_right)
qed

lemma isBehaviorImpl_eq:
  "isBehaviorImpl newBehavior = (\<lambda>b. \<not> sublist (className newBehavior) (assignment_name b))"
  by (rule ext) (simp add: isBehaviorImpl_def indexOf_minus_one_iff)

text \<open>
  A merge that does not throw: the longer description (the existing one on a tie), the
  demos, properties and observers of both in order, the events of both made unique by
  \<^verbatim>\<open>dedupe\<close> and followed by the change events of the added properties, and the
  assignments of both without those whose name contains the class name.
\<close>

lemma mergeInto_merged:
  assumes "snd (mergeInto behavior newBehavior) = None"
  shows "description (fst (mergeInto behavior newBehavior)) =
           (if length (description newBehavior) > length (description behavior)
            then description newBehavior else description behavior)"
    and "demos (fst (mergeInto behavior newBehavior)) = demos behavior @ demos newBehavior"
    and "\<exists>extra. events (fst (mergeInto behavior newBehavior)) =
           dedupe (events behavior @ events newBehavior) event_name @ extra"
    and "properties (fst (mergeInto behavior newBehavior)) = properties behavior @ properties newBehavior"
    and "observers (fst (mergeInto behavior newBehavior)) = observers behavior @ observers newBehavior"
    and "behaviorAssignments (fst (mergeInto behavior newBehavior)) =
           filter (\<lambda>b. \<not> sublist (className newBehavior) (assignment_name b))
             (behaviorAssignments behavior @ behaviorAssignments newBehavior)"
    and "className (fst (mergeInto behavior newBehavior)) = className behavior"
proof -
  define b1 where "b1 =
     (if description newBehavior \<noteq> [] then
        (if description behavior \<noteq> [] then
           (if length (description newBehavior) > length (description behavior)
            then behavior\<lparr>description := description newBehavior\<rparr>
            else behavior)
         else behavior\<lparr>description := description newBehavior\<rparr>)
      else behavior)"
  define b4 where "b4 = b1\<lparr>demos := demos b1 @ demos newBehavior,
      events := dedupe (events b1 @ events newBehavior) event_name\<rparr>"
  have b1: "description b1 =
           (if length (description newBehavior) > length (description behavior)
            then description newBehavior else description behavior)"
      "demos b1 = demos behavior" "events b1 = events behavior"
      "properties b1 = properties behavior" "observers b1 = observers behavior"
      "behaviorAssignments b1 = behaviorAssignments behavior" "className b1 = className behavior"
    by (auto simp: b1_def)
  obtain b5 r where a: "addProperties b4 (properties newBehavior) = (b5, r)"
    by (cases "addProperties b4 (properties newBehavior)")
  have "mergeInto behavior newBehavior =
      (case addProperties b4 (properties newBehavior) of
         (b5, Some e) \<Rightarrow> (b5, Some e)
       | (b5, None) \<Rightarrow> (b5\<lparr>observers := observers b5 @ observers newBehavior,
                       behaviorAssignments := filter (isBehaviorImpl newBehavior)
                         (behaviorAssignments b5 @ behaviorAssignments newBehavior)\<rparr>, None))"
    unfolding mergeInto_def Let_def b1_def [symmetric] b4_def
    by (simp split: prod.split option.split)
  then have m: "mergeInto behavior newBehavior =
      (case r of Some e \<Rightarrow> (b5, Some e)
       | None \<Rightarrow> (b5\<lparr>observers := observers b5 @ observers newBehavior,
                       behaviorAssignments := filter (isBehaviorImpl newBehavior)
                         (behaviorAssignments b5 @ behaviorAssignments newBehavior)\<rparr>, None))"
    using a by (simp split: option.splits)
  have r: "r = None"
    using assms m by (cases r) auto
  note f = addProperties_frame [OF a]
  show "description (fst (mergeInto behavior newBehavior)) =
           (if length (description newBehavior) > length (description behavior)
            then description newBehavior else description behavior)"
    and "demos (fst (mergeInto behavior newBehavior)) = demos behavior @ demos newBehavior"
    and "\<exists>extra. events (fst (mergeInto behavior newBehavior)) =
           dedupe (events behavior @ events newBehavior) event_name @ extra"
    and "properties (fst (mergeInto behavior newBehavior)) = properties behavior @ properties newBehavior"
    and "observers (fst (mergeInto behavior newBehavior)) = observers behavior @ observers newBehavior"
    and "behaviorAssignments (fst (mergeInto behavior newBehavior)) =
           filter (\<lambda>b. \<not> sublist (className newBehavior) (assignment_name b))
             (behaviorAssignments behavior @ behaviorAssignments newBehavior)"
    and "className (fst (mergeInto behavior newBehavior)) = className behavior"
    using f r b1 addProperties_className [of b4 "properties newBehavior"] a
    by (auto simp: m b4_def isBehaviorImpl_eq)
qed


text \<open>
  C6. Merging is meant to make the concatenated events unique by name and keep the first
  event of each name. \<^verbatim>\<open>dedupe\<close> tests \<^verbatim>\<open>key in bucket\<close> on a plain object, which
  holds of the names that every object inherits: when the new behavior brings an event
  named \<^verbatim>\<open>toString\<close> and the existing behavior of the same class name has no event,
  the only event of that name is dropped and the merged behavior has no event at all.
\<close>

theorem mergeBehavior_drops_inherited_name:
  "map event_name (events (mkBehavior ''Polymer.MyBehavior'' [] []) @
                   events (mkBehavior ''Polymer.MyBehavior'' [] [mkEvent ''toString'' 7])) =
     [''toString''] \<and>
   mergeBehavior [mkBehavior ''Polymer.MyBehavior'' [] []]
       (mkBehavior ''Polymer.MyBehavior'' [] [mkEvent ''toString'' 7]) =
     ([mkBehavior ''Polymer.MyBehavior'' [] []], Inr (mkBehavior ''Polymer.MyBehavior'' [] []))"
  by code_simp

section \<open>Properties of the element reference scanner\<close>

text \<open>The pattern \<^verbatim>\<open>/(.+-)+.+/\<close> matches in a string exactly when it has a hyphen inside.\<close>

lemma hyphenInside_iff:
  "hyphenInside s \<longleftrightarrow>
     (\<exists>a c d b. s = a @ [c, CHR ''-'', d] @ b \<and> \<not> isLineTerminator c \<and> \<not> isLineTerminator d)"
proof (induction s rule: hyphenInside.induct)
  case (1 c d e s)
  show ?case
  proof
    assume "hyphenInside (c # d # e # s)"
    then consider "\<not> isLineTerminator c \<and> d = CHR ''-'' \<and> \<not> isLineTerminator e"
      | "hyphenInside (d # e # s)" by auto
    then show "\<exists>a c' d' b. c # d # e # s = a @ [c', CHR ''-'', d'] @ b \<and>
               \<not> isLineTerminator c' \<and> \<not> isLineTerminator d'"
    proof cases
      case 1
      then have "c # d # e # s = [] @ [c, CHR ''-'', e] @ s" by simp
      with 1 show ?thesis by blast
    next
      case 2
      then obtain a c' d' b where "d # e # s = a @ [c', CHR ''-'', d'] @ b"
        "\<not> isLineTerminator c'" "\<not> isLineTerminator d'"
        using "1.IH" by blast
      then have "c # d # e # s = (c # a) @ [c', CHR ''-'', d'] @ b" by simp
      with \<open>\<not> isLineTerminator c'\<close> \<open>\<not> isLineTerminator d'\<close> show ?thesis by blast
    qed
  next
    assume "\<exists>a c' d' b. c # d # e # s = a @ [c', CHR ''-'', d'] @ b \<and>
               \<not> isLineTerminator c' \<and> \<not> isLineTerminator d'"
    then obtain a c' d' b where eq: "c # d # e # s = a @ [c', CHR ''-'', d'] @ b"
      and nl: "\<not> isLineTerminator c'" "\<not> isLineTerminator d'" by blast
    show "hyphenInside (c # d # e # s)"
    proof (cases a)
      case Nil
      with eq nl show ?thesis by simp
    next
      case (Cons x a')
      with eq have "d # e # s = a' @ [c', CHR ''-'', d'] @ b" by simp
      with nl have "hyphenInside (d # e # s)" using "1.IH" by blast
      then show ?thesis by simp
    qed
  qed
qed (auto simp: Cons_eq_append_conv)


lemma iterate_closure:
  assumes step: "\<And>s u. u \<in> set (m s) \<Longrightarrow> R s u"
    and trans: "\<And>s v u. R s v \<Longrightarrow> R v u \<Longrightarrow> R s u"
  shows "u \<in> set (iterate n m s) \<Longrightarrow> R s u"
proof (induction n arbitrary: s)
  case 0
  then show ?case by simp
next
  case (Suc n)
  then consider "u \<in> set (m s)" | v where "v \<in> set (m s)" "u \<in> set (iterate n m v)"
    by auto
  then show ?case
  proof cases
    case 1
    then show ?thesis by (rule step)
  next
    case 2
    from step [OF 2(1)] Suc.IH [OF 2(2)] show ?thesis by (rule trans)
  qed
qed

lemma iterate_once: "u \<in> set (m s) \<Longrightarrow> u \<in> set (iterate (Suc n) m s)"
  by simp

lemma ends_Dot_iff: "u \<in> set (ends Dot s) \<longleftrightarrow> (\<exists>c. s = c # u \<and> \<not> isLineTerminator c)"
  by (cases s) auto

lemma ends_Chr_iff: "u \<in> set (ends (Chr a) s) \<longleftrightarrow> s = a # u"
  by (cases s) auto

lemma ends_Seq_iff: "u \<in> set (ends (Seq r1 r2) s) \<longleftrightarrow> (\<exists>v \<in> set (ends r1 s). u \<in> set (ends r2 v))"
  by auto

lemma ends_Plus_Dot:
  assumes "u \<in> set (ends (Plus Dot) s)"
  shows "\<exists>w. s = w @ u \<and> w \<noteq> [] \<and> (\<forall>x\<in>set w. \<not> isLineTerminator x)"
proof -
  let ?R = "\<lambda>s u. \<exists>w. s = w @ u \<and> w \<noteq> [] \<and> (\<forall>x\<in>set w. \<not> isLineTerminator x)"
  have step: "?R s u" if "u \<in> set (ends Dot s)" for s u
  proof -
    from that obtain c where "s = [c] @ u" "\<not> isLineTerminator c"
      unfolding ends_Dot_iff by auto
    then show ?thesis by (intro exI [of _ "[c]"]) simp
  qed
  have trans: "?R s u" if "?R s v" "?R v u" for s v u
  proof -
    from that obtain w1 w2 where "s = w1 @ v" "w1 \<noteq> []" "\<forall>x\<in>set w1. \<not> isLineTerminator x"
      "v = w2 @ u" "\<forall>x\<in>set w2. \<not> isLineTerminator x" by blast
    then show ?thesis by (intro exI [of _ "w1 @ w2"]) auto
  qed
  from assms have mem: "u \<in> set (iterate (Suc (length s)) (ends Dot) s)"
    by (simp only: ends.simps)
  have "?R s u"
    using step trans mem by (rule iterate_closure [where R = ?R and m = "ends Dot"])
  then show ?thesis .
qed

lemma ends_hyphenGroup:
  assumes "u \<in> set (ends hyphenGroup s)"
  shows "\<exists>w c. s = w @ [c, CHR ''-''] @ u \<and> \<not> isLineTerminator c"
proof -
  from assms obtain v where v: "v \<in> set (ends (Plus Dot) s)" and u: "u \<in> set (ends (Chr (CHR ''-'')) v)"
    unfolding hyphenGroup_def ends_Seq_iff by blast
  from u have vu: "v = CHR ''-'' # u"
    unfolding ends_Chr_iff .
  from ends_Plus_Dot [OF v] obtain w where w: "s = w @ v" "w \<noteq> []" "\<forall>x\<in>set w. \<not> isLineTerminator x"
    by blast
  then have "s = butlast w @ [last w, CHR ''-''] @ u" "\<not> isLineTerminator (last w)"
    using vu by simp_all
  then show ?thesis by blast
qed

lemma ends_Plus_hyphenGroup:
  assumes "u \<in> set (ends (Plus hyphenGroup) s)"
  shows "\<exists>w c. s = w @ [c, CHR ''-''] @ u \<and> \<not> isLineTerminator c"
proof -
  let ?R = "\<lambda>s u. \<exists>w c. s = w @ [c, CHR ''-''] @ u \<and> \<not> isLineTerminator c"
  have step: "?R s u" if "u \<in> set (ends hyphenGroup s)" for s u
    using that by (rule ends_hyphenGroup)
  have trans: "?R s u" if "?R s v" "?R v u" for s v u
  proof -
    from that obtain w1 c1 w2 c2 where "s = w1 @ [c1, CHR ''-''] @ v"
      "v = w2 @ [c2, CHR ''-''] @ u" "\<not> isLineTerminator c2" by blast
    then show ?thesis by (intro exI [of _ "w1 @ [c1, CHR ''-''] @ w2"] exI [of _ c2]) simp
  qed
  from assms have mem: "u \<in> set (iterate (Suc (length s)) (ends hyphenGroup) s)"
    by (simp only: ends.simps)
  have "?R s u"
    using step trans mem by (rule iterate_closure [where R = ?R and m = "ends hyphenGroup"])
  then show ?thesis .
qed


lemma ends_customElementRegex:
  assumes "ends customElementRegex t \<noteq> []"
  shows "hyphenInside t"
proof -
  from assms obtain b where "b \<in> set (ends customElementRegex t)"
    by (cases "ends customElementRegex t") auto
  then obtain v where v: "v \<in> set (ends (Plus hyphenGroup) t)" and b: "b \<in> set (ends (Plus Dot) v)"
    unfolding customElementRegex_def hyphenGroup_def ends_Seq_iff by blast
  from ends_Plus_hyphenGroup [OF v] obtain w c
    where t: "t = w @ [c, CHR ''-''] @ v" and c: "\<not> isLineTerminator c"
    by blast
  from ends_Plus_Dot [OF b] obtain w'
    where w': "v = w' @ b" "w' \<noteq> []" "\<forall>x\<in>set w'. \<not> isLineTerminator x"
    by blast
  then obtain d w'' where d: "w' = d # w''"
    by (cases w') auto
  have "t = w @ [c, CHR ''-'', d] @ (w'' @ b)"
    using t w'(1) d by simp
  moreover have "\<not> isLineTerminator d"
    using w'(3) d by simp
  ultimately show ?thesis
    unfolding hyphenInside_iff using c by blast
qed

lemma customElementRegex_ends:
  assumes c: "\<not> isLineTerminator c" and d: "\<not> isLineTerminator d"
  shows "ends customElementRegex (c # CHR ''-'' # d # b) \<noteq> []"
proof -
  let ?t = "c # CHR ''-'' # d # b"
  have "(CHR ''-'' # d # b) \<in> set (ends Dot ?t)"
    using c unfolding ends_Dot_iff by simp
  then have "(CHR ''-'' # d # b) \<in> set (ends (Plus Dot) ?t)"
    unfolding ends.simps(4) by (rule iterate_once)
  moreover have "(d # b) \<in> set (ends (Chr (CHR ''-'')) (CHR ''-'' # d # b))"
    unfolding ends_Chr_iff ..
  ultimately have "(d # b) \<in> set (ends hyphenGroup ?t)"
    unfolding hyphenGroup_def ends_Seq_iff by blast
  then have g: "(d # b) \<in> set (ends (Plus hyphenGroup) ?t)"
    unfolding ends.simps(4) by (rule iterate_once)
  have "b \<in> set (ends Dot (d # b))"
    using d unfolding ends_Dot_iff by simp
  then have "b \<in> set (ends (Plus Dot) (d # b))"
    unfolding ends.simps(4) by (rule iterate_once)
  with g have "b \<in> set (ends customElementRegex ?t)"
    unfolding customElementRegex_def hyphenGroup_def [symmetric] ends_Seq_iff by blast
  then show ?thesis
    by auto
qed

lemma regex_test_customElementRegex: "regex_test customElementRegex s \<longleftrightarrow> hyphenInside s"
proof
  assume "regex_test customElementRegex s"
  then obtain t where t: "suffix t s" "ends customElementRegex t \<noteq> []"
    by (auto simp: regex_test_def list_ex_iff)
  then have "hyphenInside t"
    by (simp add: ends_customElementRegex)
  then obtain a c d b where "t = a @ [c, CHR ''-'', d] @ b"
    and nl: "\<not> isLineTerminator c" "\<not> isLineTerminator d"
    unfolding hyphenInside_iff by blast
  moreover obtain p where "s = p @ t"
    using t(1) by (auto simp: suffix_def)
  ultimately have "s = (p @ a) @ [c, CHR ''-'', d] @ b"
    by simp
  with nl show "hyphenInside s"
    unfolding hyphenInside_iff by blast
next
  assume "hyphenInside s"
  then obtain a c d b where s: "s = a @ [c, CHR ''-'', d] @ b"
    and nl: "\<not> isLineTerminator c" "\<not> isLineTerminator d"
    unfolding hyphenInside_iff by blast
  have "suffix (c # CHR ''-'' # d # b) s"
    using s by (simp add: suffix_def)
  moreover have "ends customElementRegex (c # CHR ''-'' # d # b) \<noteq> []"
    using nl by (rule customElementRegex_ends)
  ultimately show "regex_test customElementRegex s"
    by (auto simp: regex_test_def list_ex_iff)
qed

lemma hyphenInside_contains: "hyphenInside s \<Longrightarrow> CHR ''-'' \<in> set s"
  unfolding hyphenInside_iff by auto

lemma nodeWalk_visitor:
  "nodeWalk matches document node =
     visitor matches document node @ concat (map (nodeWalk matches document) (childNodes node))"
  by (cases node) (simp add: visitor_def)

lemma concat_map_concat:
  "concat (map f (concat xss)) = concat (map (\<lambda>xs. concat (map f xs)) xss)"
  by (induction xss) auto

lemma nodeWalk_walkedNodes:
  "nodeWalk matches document node = concat (map (visitNode matches document) (walkedNodes node))"
proof (induction node rule: walkedNodes.induct)
  case (1 nn tn as cs ct)
  have eq: "map (nodeWalk matches document) cs =
        map (\<lambda>x. concat (map (visitNode matches document) (walkedNodes x))) cs"
    using "1.IH"(2) by (intro map_cong) auto
  have "concat (map (visitNode matches document) (concat (map walkedNodes cs))) =
        concat (map (\<lambda>x. concat (map (visitNode matches document) (walkedNodes x))) cs)"
    by (simp add: concat_map_concat comp_def)
  then have kids: "concat (map (nodeWalk matches document) cs) =
        concat (map (visitNode matches document) (concat (map walkedNodes cs)))"
    by (simp only: eq)
  show ?case
  proof (cases "tn = Some ''template''")
    case False
    then show ?thesis using kids by simp
  next
    case True
    show ?thesis
    proof (cases ct)
      case None
      then show ?thesis using kids by simp
    next
      case (Some c)
      then show ?thesis using kids True "1.IH"(1) [OF True Some] by simp
    qed
  qed
qed

lemma scan_visitedNodes:
  "scan matches document visited = concat (map (visitNode matches document) (visitedNodes visited))"
  by (induction visited)
     (auto simp: scan_def visitedNodes_def visitor_def nodeWalk_walkedNodes split: option.splits)


text \<open>The scan is the visit of every visited node, one after the other.\<close>

text \<open>Lower-casing the tag name moves no hyphen and no line terminator.\<close>

lemma charToLowerCase_code:
  "hasLowerCase c \<Longrightarrow> (of_char (charToLowerCase c) :: nat) = of_char c + 32"
  by (auto simp: charToLowerCase_def hasLowerCase_def)

lemma charToLowerCase_hyphen: "charToLowerCase c = CHR ''-'' \<longleftrightarrow> c = CHR ''-''"
proof (cases "hasLowerCase c")
  case True
  then have "(of_char (charToLowerCase c) :: nat) \<noteq> of_char (CHR ''-'')"
    and "(of_char c :: nat) \<noteq> of_char (CHR ''-'')"
    by (simp_all add: charToLowerCase_code) (auto simp: hasLowerCase_def)
  then show ?thesis by auto
next
  case False
  then show ?thesis by (simp add: charToLowerCase_def)
qed

lemma charToLowerCase_isLineTerminator:
  "isLineTerminator (charToLowerCase c) \<longleftrightarrow> isLineTerminator c"
proof (cases "hasLowerCase c")
  case True
  then have "(of_char (charToLowerCase c) :: nat) \<noteq> of_char (CHR 0x0A)"
    "(of_char (charToLowerCase c) :: nat) \<noteq> of_char (CHR 0x0D)"
    "(of_char c :: nat) \<noteq> of_char (CHR 0x0A)" "(of_char c :: nat) \<noteq> of_char (CHR 0x0D)"
    by (simp_all add: charToLowerCase_code) (auto simp: hasLowerCase_def)
  then show ?thesis by (auto simp: isLineTerminator_def)
next
  case False
  then show ?thesis by (simp add: charToLowerCase_def)
qed

lemma hyphenInside_toLowerCase: "hyphenInside (toLowerCase s) \<longleftrightarrow> hyphenInside s"
  by (induction s rule: hyphenInside.induct)
     (simp_all add: toLowerCase_def charToLowerCase_hyphen charToLowerCase_isLineTerminator)

lemma hyphenInside_not_Nil: "hyphenInside tag \<Longrightarrow> tag \<noteq> []"
  by auto

lemma visitNode_custom:
  "visitNode matchesCustomElement document node =
     (case tagName node of
        None \<Rightarrow> []
      | Some tag \<Rightarrow>
          if hyphenInside tag \<and> nodeName node \<noteq> ''dom-module'' then
            [\<lparr>ser_tagName = tag,
              ser_sourceRange = sourceRangeForNode document node,
              ser_astNode = node,
              ser_attributes = referenceAttributes document node\<rparr>]
          else [])"
  by (auto simp: visitNode_def matchesCustomElement_def isCustomElement_def hasMatchingTagName_def
                 regex_test_customElementRegex hyphenInside_toLowerCase split: option.splits)

text \<open>
  C7, as stated: every element whose tag name contains a hyphen is emitted, the
  element-module wrapper apart. The element \<^verbatim>\<open><foo->\<close> has a hyphen in its tag name
  and is not emitted: the pattern asks for a character after the hyphen.
\<close>

theorem customElementReferences_counterexample:
  "tagName (elementNode ''foo-'' []) = Some ''foo-'' \<and>
   CHR ''-'' \<in> set ''foo-'' \<and>
   nodeName (elementNode ''foo-'' []) \<noteq> ''dom-module'' \<and>
   scan matchesCustomElement exampleHtmlDocument [elementNode ''foo-'' []] = []"
  by (simp add: scan_visitedNodes visitedNodes_def visitNode_custom elementNode_def)

text \<open>
  C7, amended: the custom-element reference scanner emits a reference for every visited
  element whose tag name has a hyphen with a character before and after it (neither a
  line terminator), except the elements whose node name is \<^verbatim>\<open>dom-module\<close>; the
  reference records every attribute of the element with its attribute range, name range
  and value range. Every reference it emits is of such an element, so an element whose
  tag name has no hyphen is never emitted.
\<close>

theorem customElementReferences:
  "(\<forall>node \<in> set (visitedNodes visited). \<forall>tag.
      tagName node = Some tag \<and> hyphenInside tag \<and> nodeName node \<noteq> ''dom-module'' \<longrightarrow>
      \<lparr>ser_tagName = tag, ser_sourceRange = sourceRangeForNode document node, ser_astNode = node,
       ser_attributes =
         map (\<lambda>attr. \<lparr>era_name = ast_attr_name attr, era_value = ast_attr_value attr,
                 era_sourceRange = sourceRangeForAttribute document node (ast_attr_name attr),
                 era_nameSourceRange = sourceRangeForAttributeName document node (ast_attr_name attr),
                 era_valueSourceRange = sourceRangeForAttributeValue document node (ast_attr_name attr)\<rparr>)
             (case attrs node of None \<Rightarrow> [] | Some as \<Rightarrow> as)\<rparr>
        \<in> set (scan matchesCustomElement document visited)) \<and>
   (\<forall>r \<in> set (scan matchesCustomElement document visited).
      ser_astNode r \<in> set (visitedNodes visited) \<and>
      tagName (ser_astNode r) = Some (ser_tagName r) \<and>
      hyphenInside (ser_tagName r) \<and> CHR ''-'' \<in> set (ser_tagName r) \<and>
      nodeName (ser_astNode r) \<noteq> ''dom-module'')"
proof (intro conjI ballI allI impI)
  fix node tag
  assume n: "node \<in> set (visitedNodes visited)"
    and t: "tagName node = Some tag \<and> hyphenInside tag \<and> nodeName node \<noteq> ''dom-module''"
  have "referenceAttributes document node =
         map (\<lambda>attr. \<lparr>era_name = ast_attr_name attr, era_value = ast_attr_value attr,
                 era_sourceRange = sourceRangeForAttribute document node (ast_attr_name attr),
                 era_nameSourceRange = sourceRangeForAttributeName document node (ast_attr_name attr),
                 era_valueSourceRange = sourceRangeForAttributeValue document node (ast_attr_name attr)\<rparr>)
             (case attrs node of None \<Rightarrow> [] | Some as \<Rightarrow> as)"
    by (simp add: referenceAttributes_def split: option.splits)
  then show "\<lparr>ser_tagName = tag, ser_sourceRange = sourceRangeForNode document node, ser_astNode = node,
       ser_attributes =
         map (\<lambda>attr. \<lparr>era_name = ast_attr_name attr, era_value = ast_attr_value attr,
                 era_sourceRange = sourceRangeForAttribute document node (ast_attr_name attr),
                 era_nameSourceRange = sourceRangeForAttributeName document node (ast_attr_name attr),
                 era_valueSourceRange = sourceRangeForAttributeValue document node (ast_attr_name attr)\<rparr>)
             (case attrs node of None \<Rightarrow> [] | Some as \<Rightarrow> as)\<rparr>
        \<in> set (scan matchesCustomElement document visited)"
    using n t by (auto simp: scan_visitedNodes visitNode_custom intro!: bexI [of _ node])
next
  fix r
  assume "r \<in> set (scan matchesCustomElement document visited)"
  then obtain node where n: "node \<in> set (visitedNodes visited)"
    and r: "r \<in> set (visitNode matchesCustomElement document node)"
    by (auto simp: scan_visitedNodes)
  from r have "ser_astNode r = node \<and> tagName node = Some (ser_tagName r) \<and>
      hyphenInside (ser_tagName r) \<and> nodeName node \<noteq> ''dom-module''"
    by (auto simp: visitNode_custom split: option.splits if_splits)
  with n show "ser_astNode r \<in> set (visitedNodes visited)"
    "tagName (ser_astNode r) = Some (ser_tagName r)"
    "hyphenInside (ser_tagName r)" "CHR ''-'' \<in> set (ser_tagName r)"
    "nodeName (ser_astNode r) \<noteq> ''dom-module''"
    by (auto dest: hyphenInside_contains)
qed

theorem customElementReferences_witness:
  "elementNode ''my-element'' [\<lparr>ast_attr_name = ''foo'', ast_attr_value = ''bar''\<rparr>]
     \<in> set (visitedNodes exampleNodes) \<and>
   hyphenInside ''my-element'' \<and>
   \<lparr>ser_tagName = ''my-element'',
    ser_sourceRange = Some (exampleRange 1),
    ser_astNode = elementNode ''my-element'' [\<lparr>ast_attr_name = ''foo'', ast_attr_value = ''bar''\<rparr>],
    ser_attributes =
      [\<lparr>era_name = ''foo'', era_value = ''bar'', era_sourceRange = Some (exampleRange 2),
        era_nameSourceRange = Some (exampleRange 3), era_valueSourceRange = None\<rparr>]\<rparr>
     \<in> set (scan matchesCustomElement exampleHtmlDocument exampleNodes) \<and>
   map ser_tagName (scan matchesCustomElement exampleHtmlDocument exampleNodes) =
     [''my-element'', ''x-a'']"
proof -
  let ?node = "elementNode ''my-element'' [\<lparr>ast_attr_name = ''foo'', ast_attr_value = ''bar''\<rparr>]"
  have n: "?node \<in> set (visitedNodes exampleNodes)"
    by (simp add: visitedNodes_def exampleNodes_def elementNode_def)
  have h: "hyphenInside ''my-element''"
    by (simp add: isLineTerminator_def)
  have t: "tagName ?node = Some ''my-element'' \<and> hyphenInside ''my-element'' \<and>
           nodeName ?node \<noteq> ''dom-module''"
    by (simp add: elementNode_def isLineTerminator_def)
  have all: "map ser_tagName (scan matchesCustomElement exampleHtmlDocument exampleNodes) =
     [''my-element'', ''x-a'']"
    by (simp add: scan_visitedNodes visitedNodes_def visitNode_custom exampleNodes_def
          elementNode_def isLineTerminator_def)
  from customElementReferences [of exampleNodes exampleHtmlDocument] n t
  have "\<lparr>ser_tagName = ''my-element'',
         ser_sourceRange = sourceRangeForNode exampleHtmlDocument ?node,
         ser_astNode = ?node,
         ser_attributes =
           map (\<lambda>attr. \<lparr>era_name = ast_attr_name attr, era_value = ast_attr_value attr,
                   era_sourceRange = sourceRangeForAttribute exampleHtmlDocument ?node (ast_attr_name attr),
                   era_nameSourceRange =
                     sourceRangeForAttributeName exampleHtmlDocument ?node (ast_attr_name attr),
                   era_valueSourceRange =
                     sourceRangeForAttributeValue exampleHtmlDocument ?node (ast_attr_name attr)\<rparr>)
               (case attrs ?node of None \<Rightarrow> [] | Some as \<Rightarrow> as)\<rparr>
        \<in> set (scan matchesCustomElement exampleHtmlDocument exampleNodes)"
    by blast
  then show ?thesis
    using n h all by (simp add: exampleHtmlDocument_def elementNode_def)
qed

section \<open>Properties of the analysis context\<close>

text \<open>
  C2. For every URL \<open>u\<close> that has no entry in the failed-documents table, in the
  analyzed-documents cache and in the scanned-documents cache, \<^verbatim>\<open>getDocument(u)\<close>
  returns a warning with code \<^verbatim>\<open>unable-to-analyze\<close> whose source range starts and
  ends at line 0, column 0 of the resolved URL's file, and it leaves the context as it
  was: no document is created or cached. The tables are keyed by resolved URLs, so the
  entry of \<open>u\<close> in a table is the one under the resolved URL of \<open>u\<close>.
\<close>

theorem getDocument_not_found:
  assumes "failedDocuments (cache ctx) (resolveUrl ctx u) = None"
    and "analyzedDocuments (cache ctx) (resolveUrl ctx u) = None"
    and "scannedDocuments (cache ctx) (resolveUrl ctx u) = None"
  shows "getDocument ctx u =
           (Inl \<lparr>warning_sourceRange = \<lparr>range_file = resolveUrl ctx u,
                                 range_start = \<lparr>line = 0, column = 0\<rparr>,
                                 range_end = \<lparr>line = 0, column = 0\<rparr>\<rparr>,
                 warning_code = ''unable-to-analyze'',
                 warning_message = ''Document not found: '' @ u,
                 warning_severity = ERROR\<rparr>, ctx)"
  using assms by (simp add: getDocument_def)

theorem getDocument_not_found_witness:
  "resolveUrl freshContext ''a.html'' = ''/root/a.html'' \<and>
   failedDocuments (cache freshContext) ''/root/a.html'' = None \<and>
   analyzedDocuments (cache freshContext) ''/root/a.html'' = None \<and>
   scannedDocuments (cache freshContext) ''/root/a.html'' = None \<and>
   getDocument freshContext ''a.html'' =
     (Inl \<lparr>warning_sourceRange = \<lparr>range_file = ''/root/a.html'',
                                   range_start = \<lparr>line = 0, column = 0\<rparr>,
                                   range_end = \<lparr>line = 0, column = 0\<rparr>\<rparr>,
           warning_code = ''unable-to-analyze'',
           warning_message = ''Document not found: a.html'',
           warning_severity = ERROR\<rparr>, freshContext)"
proof -
  have r: "resolveUrl freshContext ''a.html'' = ''/root/a.html''"
    by (simp add: resolveUrl_def freshContext_def)
  have f: "failedDocuments (cache freshContext) (resolveUrl freshContext ''a.html'') = None"
    and a: "analyzedDocuments (cache freshContext) (resolveUrl freshContext ''a.html'') = None"
    and d: "scannedDocuments (cache freshContext) (resolveUrl freshContext ''a.html'') = None"
    unfolding r by (simp_all add: freshContext_def)
  show ?thesis
    using r f a d getDocument_not_found [OF f a d] by simp
qed

text \<open>
  Once the analyzed document of \<^verbatim>\<open>/root/a.html\<close> is in the cache, the same call
  returns it: the lookup is under the resolved URL.
\<close>

lemma getDocument_cached:
  "getDocument exampleContext ''a.html'' = (Inr exampleDocument, exampleContext)"
  by (simp add: exampleContext_def getDocument_def resolveUrl_def Let_def)

text \<open>
  The three outcomes of \<^verbatim>\<open>_parseContents\<close> that hold as documented: a missing parser,
  a warning-carrying exception, and a thrown value whose \<^verbatim>\<open>stack\<close> can be read.
\<close>

lemma parseContents_no_parser:
  "parsers ctx type = None \<Longrightarrow>
     parseContents ctx type contents url inlineInfo =
       Inl (NoKnownParserError (''No parser for for file type '' @ type))"
  by (simp add: parseContents_def)

lemma parseContents_rethrows_warning:
  "parsers ctx type = Some parser \<Longrightarrow>
   parser contents url inlineInfo = Inl (ThrownWarningCarryingException w) \<Longrightarrow>
     parseContents ctx type contents url inlineInfo = Inl (WarningCarryingException w)"
  by (simp add: parseContents_def)

lemma parseContents_wraps_value:
  "parsers ctx type = Some parser \<Longrightarrow>
   parser contents url inlineInfo = Inl (ThrownValue stack) \<Longrightarrow>
     parseContents ctx type contents url inlineInfo =
       Inl (Error (''Error parsing '' @ url @ '':'' @ [CHR 0x0A] @ '' '' @ stack))"
  by (simp add: parseContents_def)

lemma parseContents_returns:
  "parsers ctx type = Some parser \<Longrightarrow>
   parser contents url inlineInfo = Inr parsed \<Longrightarrow>
     parseContents ctx type contents url inlineInfo = Inr parsed"
  by (simp add: parseContents_def)

text \<open>
  C8. A throw of the parser that carries no warning is meant to be wrapped in a generic
  error that names the URL. When the parser throws \<^verbatim>\<open>null\<close> or \<^verbatim>\<open>undefined\<close>, building
  the message reads \<^verbatim>\<open>error.stack\<close> of that value, and what leaves
  \<^verbatim>\<open>_parseContents\<close> is the runtime's TypeError, which does not name the URL.
\<close>

theorem parseContents_nullish_throw:
  "parseContents (exampleContext\<lparr>parsers := [''js'' \<mapsto> throwingParser ThrownNullish]\<rparr>)
     ''js'' ''var x;'' ''/root/a.js'' None = Inl TypeError"
  by (simp add: parseContents_def throwingParser_def)

section \<open>Properties of the summary emitter\<close>

text \<open>None of the serializers reads the superclass of the element.\<close>

lemma serializeMember_superClass:
  "serializeProperty pathLib (element\<lparr>element_superClass := s\<rparr>) elementPath =
     serializeProperty pathLib element elementPath"
  "serializeMethod pathLib (element\<lparr>element_superClass := s\<rparr>) elementPath =
     serializeMethod pathLib element elementPath"
  "serializeAttribute pathLib (element\<lparr>element_superClass := s\<rparr>) elementPath =
     serializeAttribute pathLib element elementPath"
  "serializeEvent (element\<lparr>element_superClass := s\<rparr>) elementPath =
     serializeEvent element elementPath"
  by (rule ext, simp add: serializeProperty_def serializeMethod_def serializeAttribute_def
        serializeEvent_def)+

lemma serializeClass_superClass:
  "serializeClass pathLib (element\<lparr>element_superClass := s\<rparr>) packagePath =
     serializeClass pathLib element packagePath"
  by (simp add: serializeClass_def serializeMember_superClass split: option.split)

lemma serializeElementLike_superClass:
  "serializeElementLike pathLib (element\<lparr>element_superClass := s\<rparr>) packagePath =
     serializeElementLike pathLib element packagePath"
  by (simp add: serializeElementLike_def serializeClass_superClass serializeMember_superClass
           split: sum.split option.split)

text \<open>An element is serialized exactly when it has a source range.\<close>

lemma serializeElement_returns:
  "(\<exists>entry. serializeElement pathLib element packagePath = Inr entry) \<longleftrightarrow>
     element_sourceRange element \<noteq> None"
  by (auto simp: serializeElement_def serializeElementLike_def serializeClass_def
           split: sum.splits option.splits)

text \<open>
  C9. For every element that the emitter serializes, the superclass field of the entry is
  the constant \<^verbatim>\<open>HTMLElement\<close>, and the entry is the same whatever the resolved
  superclass of the element is: the superclass of the element is not read, so its
  identifier is not written.
\<close>

theorem serializeElement_superclass:
  assumes "serializeElement pathLib element packagePath = Inr entry"
  shows "summary_superclass entry = Some ''HTMLElement'' \<and>
         serializeElement pathLib (element\<lparr>element_superClass := anySuperClass\<rparr>) packagePath =
           Inr entry"
  using assms
  by (auto simp: serializeElement_def serializeElementLike_superClass
                 SummaryElementLike.defs SummaryElement.defs
           split: sum.splits)

theorem serializeElement_superclass_witness:
  "element_superClass exampleElement = Some \<lparr>ref_identifier = ''Polymer.Element''\<rparr> \<and>
   (\<exists>entry. serializeElement examplePathLib exampleElement ''/pkg'' = Inr entry \<and>
      summary_superclass entry = Some ''HTMLElement'' \<and>
      serializeElement examplePathLib (exampleElement\<lparr>element_superClass := None\<rparr>) ''/pkg'' =
        Inr entry)"
proof -
  obtain entry where e: "serializeElement examplePathLib exampleElement ''/pkg'' = Inr entry"
    using serializeElement_returns [of examplePathLib exampleElement "''/pkg''"]
    by (auto simp: exampleElement_def)
  show ?thesis
    using e serializeElement_superclass [OF e, of None]
    by (simp add: exampleElement_def)
qed

end
